theory Spec2Isabelle
  imports Main "HOL-Library.Word"
begin

section \<open>The Bluetooth client of ledfx: data model\<close>

text \<open>
  The Go package \<open>bluetooth\<close> finds a Bluetooth device, first in the adapter's cache and
  then among the devices the adapter discovers, and connects to it in a background
  goroutine. The model below follows the source function by function. Everything the
  client asks of the outside (the BlueZ adapter, the regular expression engine, the
  address cleaner) is a field of the record \<open>env\<close>; everything the client does to the
  outside (calls, log lines, sleeps, goroutines started, the send on \<open>done\<close>) is appended
  to the \<open>trace\<close> of the client, in program order.
\<close>

subsection \<open>Errors\<close>

text \<open>
  An error of a library outside the package (go-bluetooth, regexp, the util package) is
  opaque: it can never be, nor wrap, the sentinel of this package.
\<close>

datatype lib_error = LibError string

text \<open>
  Modelled from the spec: the sentinel \<open>ErrBtDeviceNotFound\<close> (the spec's DeviceNotFound)
  is a package variable declared outside the given sources; it is a constructor of its
  own here. \<open>fmt_Errorf\<close> is \<open>fmt.Errorf\<close> without a \<open>%w\<close> verb, \<open>fmt_Errorf_w\<close> is
  \<open>fmt.Errorf\<close> with the message prefix and the wrapped error.
\<close>

datatype error =
    ErrBtDeviceNotFound
  | Lib lib_error
  | fmt_Errorf string
  | fmt_Errorf_w string error

text \<open>\<open>errors.Is\<close>: the error itself or any error it wraps equals the target.\<close>

fun errors_Is :: "error \<Rightarrow> error \<Rightarrow> bool" where
  "errors_Is (fmt_Errorf_w m e) target = (fmt_Errorf_w m e = target \<or> errors_Is e target)"
| "errors_Is e target = (e = target)"

subsection \<open>Devices, discovery events, configuration\<close>

text \<open>\<open>time.Duration\<close> is a 64-bit count of nanoseconds (read as signed by \<open>sint\<close>).\<close>

type_synonym duration = "64 word"

text \<open>
  A \<open>device.Device1\<close> handle: the two properties the client reads, and the D-Bus object
  path that identifies the device.
\<close>

record Device1 =
  Address :: string
  Name :: string
  ObjectPath :: string

datatype DiscoveredType = DeviceRemoved | DeviceAdded

record DeviceDiscovered =
  Path :: string
  Type :: DiscoveredType

text \<open>
  A receive-only channel as the range loop sees it: the values that arrive, in arrival
  order, and whether the channel is closed after the last one. A channel that is never
  closed blocks its reader for ever once it is drained.
\<close>

datatype 'a chan = Chan (arrivals: "'a list") (closes: bool)

text \<open>The cancel function returned by \<open>api.Discover\<close>.\<close>

datatype cancelFn = StopDiscovery

text \<open>
  \<open>SearchTargetConfig\<close> is declared outside the given sources; these are the three
  fields the client reads.
\<close>

record SearchTargetConfig =
  DeviceAddress :: string
  DeviceRegex :: string
  ConnectRetryCoolDown :: duration

subsection \<open>The outside world\<close>

text \<open>
  The collaborators. \<open>CleanMacAddress\<close> is \<open>util.CleanMacAddress\<close>; \<open>regexp_Compile\<close> and
  \<open>MatchString\<close> are Go's \<open>regexp\<close> package, over any type \<open>'rx\<close> of compiled patterns;
  \<open>GetDefaultAdapter\<close>, \<open>SetPowered\<close> and \<open>GetDevices\<close> are the adapter; \<open>Discover\<close> is
  \<open>api.Discover\<close>; \<open>NewDevice1\<close> is \<open>device.NewDevice1\<close>; \<open>Connect d i\<close> is what the
  \<open>i\<close>-th call (from 0) of \<open>Connect\<close> on the device \<open>d\<close> returns, \<open>None\<close> being Go's nil
  error.
\<close>

record 'rx env =
  CleanMacAddress :: "string \<Rightarrow> lib_error + string"
  regexp_Compile :: "string \<Rightarrow> lib_error + 'rx"
  MatchString :: "'rx \<Rightarrow> string \<Rightarrow> bool"
  GetDefaultAdapter :: "lib_error + string"
  SetPowered :: "bool \<Rightarrow> lib_error option"
  GetDevices :: "lib_error + Device1 list"
  Discover :: "lib_error + DeviceDiscovered chan"
  NewDevice1 :: "string \<Rightarrow> lib_error + Device1"
  Connect :: "Device1 \<Rightarrow> nat \<Rightarrow> lib_error option"

subsection \<open>What the client does: the trace\<close>

datatype level = Debug | Info | Warn | Error

datatype arg = S string | E error

datatype goroutine_name = TryDiscoveryConnect | TryConnectForever

text \<open>
  \<open>Log\<close> is a call of the logger with its format string and arguments; \<open>Go\<close> is a
  \<open>go\<close> statement; \<open>SendDone\<close> is the send on the channel \<open>done\<close>; \<open>ConnectCall\<close> carries
  the device and what the call returned.
\<close>

datatype event =
    Log level string "arg list"
  | GetDevicesCall
  | DiscoverCall
  | CancelDiscover
  | NewDevice1Call string
  | ConnectCall Device1 "lib_error option"
  | Sleep duration
  | SendDone
  | Go goroutine_name

text \<open>
  A goroutine that has been started and has not run yet, with the variables its body
  closes over.
\<close>

datatype goroutine =
    GoDiscovery "string \<Rightarrow> string \<Rightarrow> bool" SearchTargetConfig
  | GoConnectForever duration

text \<open>
  The struct \<open>Client\<close>. The mutex \<open>mu\<close> is never locked by the code and has no field
  here; the adapter is the \<open>env\<close>; the channel \<open>done\<close> is seen through the \<open>SendDone\<close>
  events of the trace. \<open>pending\<close> holds the goroutines started and not yet run.
\<close>

record Client =
  dev :: "Device1 option"
  discoverChan :: "DeviceDiscovered chan option"
  cancelDiscoverFn :: "cancelFn option"
  trace :: "event list"
  pending :: "goroutine list"

text \<open>
  How a call ends: it returns, or it never does (the retry loop still running when the
  fuel is spent, a reader blocked on a channel nobody closes), or it panics on a nil
  pointer. Each carries the client as it is at that moment.
\<close>

datatype 'a outcome = Returned 'a | Unfinished Client | Panicked Client

definition emit :: "event \<Rightarrow> Client \<Rightarrow> Client" where
  "emit e cl = cl\<lparr>trace := trace cl @ [e]\<rparr>"

definition Debugf :: "string \<Rightarrow> arg list \<Rightarrow> Client \<Rightarrow> Client" where
  "Debugf f as = emit (Log Debug f as)"

definition Infof :: "string \<Rightarrow> arg list \<Rightarrow> Client \<Rightarrow> Client" where
  "Infof f as = emit (Log Info f as)"

definition Warnf :: "string \<Rightarrow> arg list \<Rightarrow> Client \<Rightarrow> Client" where
  "Warnf f as = emit (Log Warn f as)"

definition Errorf :: "string \<Rightarrow> arg list \<Rightarrow> Client \<Rightarrow> Client" where
  "Errorf f as = emit (Log Error f as)"

text \<open>The statement \<open>go g\<close>: the goroutine is started, to run later.\<close>

fun name_of :: "goroutine \<Rightarrow> goroutine_name" where
  "name_of (GoDiscovery matchFunc config) = TryDiscoveryConnect"
| "name_of (GoConnectForever coolDown) = TryConnectForever"

definition go :: "goroutine \<Rightarrow> Client \<Rightarrow> Client" where
  "go g cl = cl\<lparr>trace := trace cl @ [Go (name_of g)], pending := pending cl @ [g]\<rparr>"

section \<open>The functions of the client\<close>

subsection \<open>NewClient\<close>

definition NewClient :: "'rx env \<Rightarrow> error + Client" where
  "NewClient env =
     (let cl = \<lparr>dev = None, discoverChan = None, cancelDiscoverFn = None,
                trace = [], pending = []\<rparr>
      in case GetDefaultAdapter env of
           Inl err \<Rightarrow> Inl (fmt_Errorf_w ''error getting default Bluetooth adapter'' (Lib err))
         | Inr name \<Rightarrow>
             let cl1 = Debugf ''Default Bluetooth adapter: %s\<newline>'' [S name] cl
             in case SetPowered env True of
                  Some err \<Rightarrow> Inl (fmt_Errorf_w ''error powering on Bluetooth adapter'' (Lib err))
                | None \<Rightarrow> Inr (Debugf ''Powered on Bluetooth adapter...\<newline>'' [] cl1))"

subsection \<open>tryConnectForever\<close>

text \<open>
  The loop \<open>for err := cl.dev.Connect(); err != nil; { log; sleep }\<close>: the call of
  \<open>Connect\<close> is the init statement, run once before the loop; the condition reads \<open>err\<close>;
  there is no post statement and the body does not assign \<open>err\<close>. \<open>retryLoop\<close> is the
  loop after its init statement, with the number of iterations it may still run.
\<close>

fun retryLoop :: "nat \<Rightarrow> lib_error option \<Rightarrow> duration \<Rightarrow> Client \<Rightarrow> Client outcome" where
  "retryLoop fuel None coolDown cl = Returned cl"
| "retryLoop 0 (Some err) coolDown cl = Unfinished cl"
| "retryLoop (Suc fuel) (Some err) coolDown cl =
     retryLoop fuel (Some err) coolDown
       (emit (Sleep coolDown)
         (Debugf ''Error encountered during connection attempt to Bluetooth device: %v (retrying...)\<newline>''
            [E (Lib err)] cl))"

text \<open>The number of calls of \<open>Connect\<close> on the device so far.\<close>

definition connectCalls :: "Device1 \<Rightarrow> event list \<Rightarrow> nat" where
  "connectCalls d tr = length (filter (\<lambda>e. case e of ConnectCall d' r \<Rightarrow> d' = d | _ \<Rightarrow> False) tr)"

definition tryConnectForever :: "'rx env \<Rightarrow> duration \<Rightarrow> nat \<Rightarrow> Client \<Rightarrow> Client outcome" where
  "tryConnectForever env coolDown fuel cl =
     (case dev cl of
        None \<Rightarrow> Panicked cl
      | Some d \<Rightarrow>
          let cl1 = Infof ''Attempting to connect to %q indefinitely...\<newline>'' [S (Address d)] cl;
              err = Connect env d (connectCalls d (trace cl1));
              cl2 = emit (ConnectCall d err) cl1
          in case retryLoop fuel err coolDown cl2 of
               Returned cl3 \<Rightarrow>
                 Returned (emit SendDone
                   (Infof ''Connection to Bluetooth device with address %q succeeded\<newline>''
                      [S (Name d)] cl3))
             | Unfinished cl3 \<Rightarrow> Unfinished cl3
             | Panicked cl3 \<Rightarrow> Panicked cl3)"

subsection \<open>tryCacheConnect\<close>

text \<open>
  The loop \<open>for _, cl.dev = range devices\<close>: every iteration stores the device in the
  slot \<open>cl.dev\<close>; a match logs and breaks with the slot filled; a miss logs and empties
  the slot. On an empty list the slot is left as it was.
\<close>

fun cacheLoop :: "(string \<Rightarrow> string \<Rightarrow> bool) \<Rightarrow> Device1 list \<Rightarrow> Client \<Rightarrow> Client" where
  "cacheLoop matchFunc [] cl = cl"
| "cacheLoop matchFunc (d # devices) cl =
     (let cl1 = cl\<lparr>dev := Some d\<rparr>
      in if matchFunc (Address d) (Name d)
         then Infof ''Found requested device in cache: (addr=%s, name=%s)''
                [S (Address d), S (Name d)] cl1
         else cacheLoop matchFunc devices
                ((Debugf ''Found non-matching device: (addr=%s, name=%s)''
                    [S (Address d), S (Name d)] cl1)\<lparr>dev := None\<rparr>))"

definition tryCacheConnect ::
  "'rx env \<Rightarrow> (string \<Rightarrow> string \<Rightarrow> bool) \<Rightarrow> SearchTargetConfig \<Rightarrow> Client
     \<Rightarrow> error option \<times> Client" where
  "tryCacheConnect env matchFunc config cl =
     (let cl0 = emit GetDevicesCall cl
      in case GetDevices env of
           Inl err \<Rightarrow> (Some (fmt_Errorf_w ''error getting device cache list'' (Lib err)), cl0)
         | Inr devices \<Rightarrow>
             let cl1 = cacheLoop matchFunc devices cl0
             in if dev cl1 \<noteq> None
                then (None, go (GoConnectForever (ConnectRetryCoolDown config)) cl1)
                else (Some ErrBtDeviceNotFound, cl1))"

subsection \<open>tryDiscoveryConnect\<close>

text \<open>
  The loop \<open>for found := range cl.discoverChan\<close> over the arrivals of the channel. A
  removed device is skipped. \<open>cl.dev, err = device.NewDevice1(found.Path)\<close> stores what
  the call returns, which on failure is the nil handle. When the arrivals are used up the
  loop ends if the channel is closed and blocks for ever if it is not.
\<close>

fun discoverLoop ::
  "'rx env \<Rightarrow> (string \<Rightarrow> string \<Rightarrow> bool) \<Rightarrow> DeviceDiscovered list \<Rightarrow> bool \<Rightarrow> Client
     \<Rightarrow> Client outcome" where
  "discoverLoop env matchFunc [] closed cl = (if closed then Returned cl else Unfinished cl)"
| "discoverLoop env matchFunc (found # rest) closed cl =
     (if Type found = DeviceRemoved then discoverLoop env matchFunc rest closed cl
      else
        let cl1 = emit (NewDevice1Call (Path found)) cl
        in case NewDevice1 env (Path found) of
             Inl err \<Rightarrow>
               discoverLoop env matchFunc rest closed
                 (Warnf ''Error generating new device from dbus object: %v\<newline>'' [E (Lib err)]
                    (cl1\<lparr>dev := None\<rparr>))
           | Inr d \<Rightarrow>
               let cl2 = cl1\<lparr>dev := Some d\<rparr>
               in if matchFunc (Address d) (Name d)
                  then Returned (Infof ''Found requested device: (addr=%s, name=%s)\<newline>''
                                   [S (Address d), S (Name d)] cl2)
                  else discoverLoop env matchFunc rest closed
                         ((Debugf ''Found non-matching device: (addr=%s, name=%s)''
                             [S (Address d), S (Name d)] cl2)\<lparr>dev := None\<rparr>))"

text \<open>
  \<open>defer cl.cancelDiscoverFn()\<close> comes after the successful start only, so the cancel
  function runs when the function returns on that path, after the \<open>go\<close> statement, and
  not after the failed start.
\<close>

definition tryDiscoveryConnect ::
  "'rx env \<Rightarrow> (string \<Rightarrow> string \<Rightarrow> bool) \<Rightarrow> SearchTargetConfig \<Rightarrow> Client
     \<Rightarrow> (error option \<times> Client) outcome" where
  "tryDiscoveryConnect env matchFunc config cl =
     (let cl0 = emit DiscoverCall cl
      in case Discover env of
           Inl err \<Rightarrow>
             Returned (Some (fmt_Errorf_w ''error starting discovery'' (Lib err)),
                       cl0\<lparr>discoverChan := None, cancelDiscoverFn := None\<rparr>)
         | Inr ch \<Rightarrow>
             let cl1 = cl0\<lparr>discoverChan := Some ch, cancelDiscoverFn := Some StopDiscovery\<rparr>
             in case discoverLoop env matchFunc (arrivals ch) (closes ch) cl1 of
                  Returned cl2 \<Rightarrow>
                    if dev cl2 \<noteq> None
                    then Returned (None, emit CancelDiscover
                                     (go (GoConnectForever (ConnectRetryCoolDown config)) cl2))
                    else Returned (Some ErrBtDeviceNotFound, emit CancelDiscover cl2)
                | Unfinished cl2 \<Rightarrow> Unfinished cl2
                | Panicked cl2 \<Rightarrow> Panicked cl2)"

subsection \<open>SearchAndConnect\<close>

text \<open>
  The \<open>switch\<close> statement at the head of \<open>SearchAndConnect\<close>: it returns the error of
  the early return, or the closure \<open>matchFunc\<close> with the configuration as the switch
  leaves it (the address replaced by its cleaned form).
\<close>

definition SearchAndConnect_matchFunc ::
  "'rx env \<Rightarrow> SearchTargetConfig
     \<Rightarrow> error + ((string \<Rightarrow> string \<Rightarrow> bool) \<times> SearchTargetConfig)" where
  "SearchAndConnect_matchFunc env config =
     (if length (DeviceAddress config) > 0 then
        (case CleanMacAddress env (DeviceAddress config) of
           Inl err \<Rightarrow> Inl (fmt_Errorf_w ''error cleaning MAC address'' (Lib err))
         | Inr cleaned \<Rightarrow>
             let config1 = config\<lparr>DeviceAddress := cleaned\<rparr>
             in Inr (\<lambda>mac _. mac = DeviceAddress config1, config1))
      else if length (DeviceRegex config) = 0 then
        Inl (fmt_Errorf ''either config.DeviceAddress or config.DeviceRegex must be specified'')
      else
        (case regexp_Compile env (DeviceRegex config) of
           Inl err \<Rightarrow> Inl (fmt_Errorf_w ''error compiling regular expression'' (Lib err))
         | Inr rxp \<Rightarrow> Inr (\<lambda>_ name. MatchString env rxp name, config)))"

definition SearchAndConnect ::
  "'rx env \<Rightarrow> SearchTargetConfig \<Rightarrow> Client \<Rightarrow> error option \<times> Client" where
  "SearchAndConnect env config cl =
     (case SearchAndConnect_matchFunc env config of
        Inl err \<Rightarrow> (Some err, cl)
      | Inr (matchFunc, config1) \<Rightarrow>
          let cl1 = Infof ''Starting tryCacheConnect...\<newline>'' [] cl
          in case tryCacheConnect env matchFunc config1 cl1 of
               (Some err, cl2) \<Rightarrow>
                 if errors_Is err ErrBtDeviceNotFound
                 then (None, go (GoDiscovery matchFunc config1) cl2)
                 else (Some (fmt_Errorf_w ''error attempting connection through device cache'' err),
                       cl2)
             | (None, cl2) \<Rightarrow> (None, cl2))"

subsection \<open>The goroutines\<close>

text \<open>The body of the \<open>go func() { ... }()\<close> of \<open>SearchAndConnect\<close>.\<close>

definition discoveryGoroutine ::
  "'rx env \<Rightarrow> (string \<Rightarrow> string \<Rightarrow> bool) \<Rightarrow> SearchTargetConfig \<Rightarrow> Client \<Rightarrow> Client outcome" where
  "discoveryGoroutine env matchFunc config cl =
     (let cl1 = Infof ''Could not find device in cache, starting tryDiscoveryConnect...\<newline>'' [] cl
      in case tryDiscoveryConnect env matchFunc config cl1 of
           Returned (Some err, cl2) \<Rightarrow>
             Returned (Errorf ''error attempting connection through discovery: %v\<newline>'' [E err] cl2)
         | Returned (None, cl2) \<Rightarrow> Returned cl2
         | Unfinished cl2 \<Rightarrow> Unfinished cl2
         | Panicked cl2 \<Rightarrow> Panicked cl2)"

fun runGoroutine :: "'rx env \<Rightarrow> nat \<Rightarrow> goroutine \<Rightarrow> Client \<Rightarrow> Client outcome" where
  "runGoroutine env fuel (GoDiscovery matchFunc config) cl =
     discoveryGoroutine env matchFunc config cl"
| "runGoroutine env fuel (GoConnectForever coolDown) cl =
     tryConnectForever env coolDown fuel cl"

text \<open>
  The started goroutines run one after the other, each to its end, in the order of their
  \<open>go\<close> statements; \<open>k\<close> bounds how many are run and \<open>fuel\<close> the iterations of a retry
  loop. The client starts a goroutine only as its last statement before a return (the
  deferred cancel of the discovery apart, which touches no field of the client), so this
  is the order in which the actions on the client happen.
\<close>

fun runPending :: "'rx env \<Rightarrow> nat \<Rightarrow> nat \<Rightarrow> Client \<Rightarrow> Client outcome" where
  "runPending env fuel 0 cl = (if pending cl = [] then Returned cl else Unfinished cl)"
| "runPending env fuel (Suc k) cl =
     (case pending cl of
        [] \<Rightarrow> Returned cl
      | g # gs \<Rightarrow>
          (case runGoroutine env fuel g (cl\<lparr>pending := gs\<rparr>) of
             Returned cl1 \<Rightarrow> runPending env fuel k cl1
           | Unfinished cl1 \<Rightarrow> Unfinished cl1
           | Panicked cl1 \<Rightarrow> Panicked cl1))"

text \<open>The client at the end of a call, however the call ended.\<close>

fun client_of :: "Client outcome \<Rightarrow> Client" where
  "client_of (Returned cl) = cl"
| "client_of (Unfinished cl) = cl"
| "client_of (Panicked cl) = cl"

fun returned :: "'a outcome \<Rightarrow> bool" where
  "returned (Returned x) = True"
| "returned out = False"

fun panicked :: "'a outcome \<Rightarrow> bool" where
  "panicked (Panicked cl) = True"
| "panicked out = False"

section \<open>Notions used to state the properties\<close>

text \<open>
  What the closure built by \<open>SearchAndConnect\<close> answers on a candidate address and name;
  \<open>None\<close> when the switch returns an error and builds no closure.
\<close>

definition matchFunc_on :: "'rx env \<Rightarrow> SearchTargetConfig \<Rightarrow> string \<Rightarrow> string \<Rightarrow> bool option" where
  "matchFunc_on env config mac name =
     (case SearchAndConnect_matchFunc env config of
        Inl err \<Rightarrow> None
      | Inr (matchFunc, config1) \<Rightarrow> Some (matchFunc mac name))"

text \<open>
  In both scans every call of \<open>matchFunc\<close> is followed by one log line that carries the
  address and the name the closure was called on (the lines that start with \<open>Found\<close>),
  and no other log line of the package has two string arguments. So the calls of
  \<open>matchFunc\<close> can be read off the trace, in order.
\<close>

fun evaluation :: "event \<Rightarrow> (string \<times> string) option" where
  "evaluation (Log l f [S mac, S name]) = Some (mac, name)"
| "evaluation e = None"

definition evaluations :: "event list \<Rightarrow> (string \<times> string) list" where
  "evaluations tr = List.map_filter evaluation tr"

definition addr_name :: "Device1 \<Rightarrow> string \<times> string" where
  "addr_name d = (Address d, Name d)"

text \<open>
  The specification's reading of the discovery scan: the handles of the events that are
  not removals and whose handle can be created, in arrival order.
\<close>

definition spec_handles :: "'rx env \<Rightarrow> DeviceDiscovered list \<Rightarrow> Device1 list" where
  "spec_handles env events =
     List.map_filter
       (\<lambda>found. if Type found = DeviceRemoved then None
                 else (case NewDevice1 env (Path found) of Inl err \<Rightarrow> None | Inr d \<Rightarrow> Some d))
       events"

text \<open>
  The events that matter to the life of the retry loop: its start, the calls of
  \<open>Connect\<close>, and the send on \<open>done\<close>.
\<close>

fun retry_event :: "event \<Rightarrow> bool" where
  "retry_event (Go TryConnectForever) = True"
| "retry_event (ConnectCall d r) = True"
| "retry_event SendDone = True"
| "retry_event e = False"

text \<open>
  The states a client goes through from its creation on, as far as the retry loop is
  concerned: nothing selected and nothing started; the discovery started; a candidate
  selected and the retry loop started; the one call of \<open>Connect\<close> made and failed; the
  call made and succeeded and the signal sent.
\<close>

definition lifecycle :: "Client \<Rightarrow> bool" where
  "lifecycle cl =
     ((dev cl = None \<and> pending cl = [] \<and> filter retry_event (trace cl) = []) \<or>
      (dev cl = None \<and> (\<exists>matchFunc config. pending cl = [GoDiscovery matchFunc config]) \<and>
         filter retry_event (trace cl) = []) \<or>
      (\<exists>d coolDown. dev cl = Some d \<and> pending cl = [GoConnectForever coolDown] \<and>
         filter retry_event (trace cl) = [Go TryConnectForever]) \<or>
      (\<exists>d err. dev cl = Some d \<and> pending cl = [] \<and>
         filter retry_event (trace cl) = [Go TryConnectForever, ConnectCall d (Some err)]) \<or>
      (\<exists>d. dev cl = Some d \<and> pending cl = [] \<and>
         filter retry_event (trace cl) = [Go TryConnectForever, ConnectCall d None, SendDone]))"

section \<open>Concrete collaborators, for running the model\<close>

text \<open>
  Modelled from the spec: \<open>util.CleanMacAddress\<close> is not among the given sources. The
  specification says that it brings an address to a canonical separator and case form
  and that a malformed address fails. Here an address is six pairs of hexadecimal digits
  separated by colons or hyphens, and the canonical form has upper-case digits and
  colons.
\<close>

definition is_hex :: "char \<Rightarrow> bool" where
  "is_hex c = (c \<in> set ''0123456789abcdefABCDEF'')"

definition to_upper :: "char \<Rightarrow> char" where
  "to_upper c = (case map_of (zip ''abcdef'' ''ABCDEF'') c of Some u \<Rightarrow> u | None \<Rightarrow> c)"

fun clean_pairs :: "string \<Rightarrow> (nat \<times> string) option" where
  "clean_pairs [a, b] =
     (if is_hex a \<and> is_hex b then Some (1, [to_upper a, to_upper b]) else None)"
| "clean_pairs (a # b # s # rest) =
     (if is_hex a \<and> is_hex b \<and> (s = CHR '':'' \<or> s = CHR ''-'')
      then (case clean_pairs rest of
              None \<Rightarrow> None
            | Some (n, t) \<Rightarrow> Some (Suc n, to_upper a # to_upper b # CHR '':'' # t))
      else None)"
| "clean_pairs mac = None"

definition CleanMacAddress_model :: "string \<Rightarrow> lib_error + string" where
  "CleanMacAddress_model mac =
     (case clean_pairs mac of
        None \<Rightarrow> Inl (LibError ''invalid MAC address'')
      | Some (n, t) \<Rightarrow> if n = 6 then Inr t else Inl (LibError ''invalid MAC address''))"

text \<open>
  A stand-in for Go's \<open>regexp\<close> on the patterns used below: the pattern \<open>(\<close> does not
  compile, and a pattern made of plain characters matches the names that contain it.
\<close>

fun contains :: "string \<Rightarrow> string \<Rightarrow> bool" where
  "contains [] pat = (pat = [])"
| "contains (c # cs) pat = (take (length pat) (c # cs) = pat \<or> contains cs pat)"

definition plain_Compile :: "string \<Rightarrow> lib_error + string" where
  "plain_Compile pat =
     (if pat = ''('' then Inl (LibError ''missing closing )'') else Inr pat)"

text \<open>Three devices; the second and the third carry the name that is searched for.\<close>

definition speaker :: Device1 where
  "speaker = \<lparr>Address = ''11:22:33:44:55:66'', Name = ''Kitchen Speaker'',
              ObjectPath = ''/org/bluez/hci0/dev_11_22_33_44_55_66''\<rparr>"

definition soundbar :: Device1 where
  "soundbar = \<lparr>Address = ''AA:BB:CC:DD:EE:FF'', Name = ''Sound Bar K850'',
               ObjectPath = ''/org/bluez/hci0/dev_AA_BB_CC_DD_EE_FF''\<rparr>"

definition soundbar2 :: Device1 where
  "soundbar2 = \<lparr>Address = ''AA:BB:CC:00:00:01'', Name = ''Spare K850'',
                ObjectPath = ''/org/bluez/hci0/dev_AA_BB_CC_00_00_01''\<rparr>"

text \<open>The closure that a search for the pattern \<open>K850\<close> builds from the stand-in.\<close>

definition wants_K850 :: "string \<Rightarrow> string \<Rightarrow> bool" where
  "wants_K850 mac name = contains name ''K850''"

definition discovered :: "DeviceDiscovered chan" where
  "discovered =
     Chan [\<lparr>Path = ObjectPath speaker, Type = DeviceAdded\<rparr>,
           \<lparr>Path = ObjectPath speaker, Type = DeviceRemoved\<rparr>,
           \<lparr>Path = ''/org/bluez/hci0/dev_gone'', Type = DeviceAdded\<rparr>,
           \<lparr>Path = ObjectPath soundbar, Type = DeviceAdded\<rparr>] True"

text \<open>
  A world whose cache holds the three devices, whose discovery reports the speaker, a
  removal, a device whose handle cannot be created and then the sound bar before the
  channel is closed, and where \<open>Connect\<close> fails once and succeeds from the second call on.
\<close>

definition world :: "string env" where
  "world =
     \<lparr>CleanMacAddress = CleanMacAddress_model,
      regexp_Compile = plain_Compile,
      MatchString = (\<lambda>rxp name. contains name rxp),
      GetDefaultAdapter = Inr ''hci0'',
      SetPowered = (\<lambda>on. None),
      GetDevices = Inr [speaker, soundbar, soundbar2],
      Discover = Inr discovered,
      NewDevice1 = (\<lambda>path. if path = ObjectPath speaker then Inr speaker
                            else if path = ObjectPath soundbar then Inr soundbar
                            else Inl (LibError ''no such object'')),
      Connect = (\<lambda>d i. if i < 1 then Some (LibError ''host is down'') else None)\<rparr>"

definition by_name :: SearchTargetConfig where
  "by_name = \<lparr>DeviceAddress = [], DeviceRegex = ''K850'', ConnectRetryCoolDown = 50000000\<rparr>"

definition by_address :: SearchTargetConfig where
  "by_address = \<lparr>DeviceAddress = ''aa-bb-cc-dd-ee-ff'', DeviceRegex = [],
                 ConnectRetryCoolDown = 50000000\<rparr>"

text \<open>The client as \<open>NewClient\<close> leaves it, before its two log lines.\<close>

definition fresh :: Client where
  "fresh = \<lparr>dev = None, discoverChan = None, cancelDiscoverFn = None, trace = [], pending = []\<rparr>"

text \<open>The client after the discovery scan of \<open>world\<close>, started on the fresh client.\<close>

definition found_by_discovery :: Client where
  "found_by_discovery =
     \<lparr>dev = Some soundbar,
      discoverChan = Some discovered,
      cancelDiscoverFn = Some StopDiscovery,
      trace = [DiscoverCall,
               NewDevice1Call ''/org/bluez/hci0/dev_11_22_33_44_55_66'',
               Log Debug ''Found non-matching device: (addr=%s, name=%s)''
                 [S ''11:22:33:44:55:66'', S ''Kitchen Speaker''],
               NewDevice1Call ''/org/bluez/hci0/dev_gone'',
               Log Warn ''Error generating new device from dbus object: %v\<newline>''
                 [E (Lib (LibError ''no such object''))],
               NewDevice1Call ''/org/bluez/hci0/dev_AA_BB_CC_DD_EE_FF'',
               Log Info ''Found requested device: (addr=%s, name=%s)\<newline>''
                 [S ''AA:BB:CC:DD:EE:FF'', S ''Sound Bar K850''],
               Go TryConnectForever,
               CancelDiscover],
      pending = [GoConnectForever 50000000]\<rparr>"

text \<open>The same world with \<open>Connect\<close> succeeding at once.\<close>

definition eager :: "string env" where
  "eager = world\<lparr>Connect := (\<lambda>d i. None)\<rparr>"

text \<open>
  The same world with only the speaker in the cache and a discovery that cannot start.
\<close>

definition no_discovery :: "string env" where
  "no_discovery = world\<lparr>GetDevices := Inr [speaker],
                         Discover := Inl (LibError ''org.bluez.Error.NotReady'')\<rparr>"

text \<open>The client that \<open>NewClient\<close> returns in these worlds.\<close>

definition powered :: Client where
  "powered = fresh\<lparr>trace := [Log Debug ''Default Bluetooth adapter: %s\<newline>'' [S ''hci0''],
                             Log Debug ''Powered on Bluetooth adapter...\<newline>'' []]\<rparr>"

text \<open>
  The clients at the end of three runs of a search by name: in \<open>world\<close> after two
  rounds of the retry loop, in \<open>eager\<close>, and in \<open>no_discovery\<close>.
\<close>

definition retrying :: Client where
  "retrying =
     \<lparr>dev = Some soundbar, discoverChan = None, cancelDiscoverFn = None,
      trace = [Log Debug ''Default Bluetooth adapter: %s\<newline>'' [S ''hci0''],
               Log Debug ''Powered on Bluetooth adapter...\<newline>'' [],
               Log Info ''Starting tryCacheConnect...\<newline>'' [],
               GetDevicesCall,
               Log Debug ''Found non-matching device: (addr=%s, name=%s)''
                 [S ''11:22:33:44:55:66'', S ''Kitchen Speaker''],
               Log Info ''Found requested device in cache: (addr=%s, name=%s)''
                 [S ''AA:BB:CC:DD:EE:FF'', S ''Sound Bar K850''],
               Go TryConnectForever,
               Log Info ''Attempting to connect to %q indefinitely...\<newline>''
                 [S ''AA:BB:CC:DD:EE:FF''],
               ConnectCall soundbar (Some (LibError ''host is down'')),
               Log Debug ''Error encountered during connection attempt to Bluetooth device: %v (retrying...)\<newline>''
                 [E (Lib (LibError ''host is down''))],
               Sleep 50000000,
               Log Debug ''Error encountered during connection attempt to Bluetooth device: %v (retrying...)\<newline>''
                 [E (Lib (LibError ''host is down''))],
               Sleep 50000000],
      pending = []\<rparr>"

definition connected :: Client where
  "connected =
     \<lparr>dev = Some soundbar, discoverChan = None, cancelDiscoverFn = None,
      trace = [Log Debug ''Default Bluetooth adapter: %s\<newline>'' [S ''hci0''],
               Log Debug ''Powered on Bluetooth adapter...\<newline>'' [],
               Log Info ''Starting tryCacheConnect...\<newline>'' [],
               GetDevicesCall,
               Log Debug ''Found non-matching device: (addr=%s, name=%s)''
                 [S ''11:22:33:44:55:66'', S ''Kitchen Speaker''],
               Log Info ''Found requested device in cache: (addr=%s, name=%s)''
                 [S ''AA:BB:CC:DD:EE:FF'', S ''Sound Bar K850''],
               Go TryConnectForever,
               Log Info ''Attempting to connect to %q indefinitely...\<newline>''
                 [S ''AA:BB:CC:DD:EE:FF''],
               ConnectCall soundbar None,
               Log Info ''Connection to Bluetooth device with address %q succeeded\<newline>''
                 [S ''Sound Bar K850''],
               SendDone],
      pending = []\<rparr>"

definition start_failed :: Client where
  "start_failed =
     \<lparr>dev = None, discoverChan = None, cancelDiscoverFn = None,
      trace = [Log Info ''Starting tryCacheConnect...\<newline>'' [],
               GetDevicesCall,
               Log Debug ''Found non-matching device: (addr=%s, name=%s)''
                 [S ''11:22:33:44:55:66'', S ''Kitchen Speaker''],
               Go TryDiscoveryConnect,
               Log Info ''Could not find device in cache, starting tryDiscoveryConnect...\<newline>'' [],
               DiscoverCall,
               Log Error ''error attempting connection through discovery: %v\<newline>''
                 [E (fmt_Errorf_w ''error starting discovery''
                       (Lib (LibError ''org.bluez.Error.NotReady'')))]],
      pending = []\<rparr>"

text \<open>
  The same world with a discovery that reports the speaker only and is then closed, and
  the client after the discovery scan of that world, started on the fresh client.
\<close>

definition only_speaker :: "DeviceDiscovered chan" where
  "only_speaker = Chan [\<lparr>Path = ObjectPath speaker, Type = DeviceAdded\<rparr>] True"

definition no_match :: "string env" where
  "no_match = world\<lparr>Discover := Inr only_speaker\<rparr>"

definition not_discovered :: Client where
  "not_discovered =
     \<lparr>dev = None,
      discoverChan = Some only_speaker,
      cancelDiscoverFn = Some StopDiscovery,
      trace = [DiscoverCall,
               NewDevice1Call ''/org/bluez/hci0/dev_11_22_33_44_55_66'',
               Log Debug ''Found non-matching device: (addr=%s, name=%s)''
                 [S ''11:22:33:44:55:66'', S ''Kitchen Speaker''],
               CancelDiscover],
      pending = []\<rparr>"

section \<open>The retry loop\<close>

lemmas act_defs = emit_def Debugf_def Infof_def Warnf_def Errorf_def go_def

lemmas world_defs = world_def by_name_def by_address_def fresh_def speaker_def soundbar_def
  soundbar2_def CleanMacAddress_model_def is_hex_def to_upper_def plain_Compile_def
  wants_K850_def discovered_def

text \<open>
  Once the one call of \<open>Connect\<close> has failed, the loop only logs and sleeps: whatever
  the fuel, it has not returned, and its trace is that many log lines and sleeps.
\<close>

lemma retryLoop_Some:
  "retryLoop fuel (Some err) coolDown cl =
     Unfinished (cl\<lparr>trace := trace cl @ concat (replicate fuel
        [Log Debug ''Error encountered during connection attempt to Bluetooth device: %v (retrying...)\<newline>''
           [E (Lib err)],
         Sleep coolDown])\<rparr>)"
  by (induction fuel arbitrary: cl) (simp_all add: act_defs)

text \<open>When the one call of \<open>Connect\<close> succeeds, the function returns and has sent once.\<close>

lemma tryConnectForever_first_success:
  assumes "dev cl = Some d"
    and "Connect env d (connectCalls d (trace cl)) = None"
  shows "tryConnectForever env coolDown fuel cl =
     Returned (cl\<lparr>trace := trace cl @
        [Log Info ''Attempting to connect to %q indefinitely...\<newline>'' [S (Address d)],
         ConnectCall d None,
         Log Info ''Connection to Bluetooth device with address %q succeeded\<newline>'' [S (Name d)],
         SendDone]\<rparr>)"
  using assms
  by (simp add: tryConnectForever_def act_defs connectCalls_def)

text \<open>
  C1 (the code departs from the claim). The claim: a device whose \<open>Connect\<close> fails \<open>n\<close>
  times and then succeeds is connected after \<open>n + 1\<close> attempts, and the completion
  signal is then sent once. The code: when the first call of \<open>Connect\<close> fails, then
  whatever later calls would return and however long the loop runs, \<open>tryConnectForever\<close>
  has not returned; its trace holds one \<open>ConnectCall\<close>, then only log lines and sleeps,
  and no \<open>SendDone\<close>.
\<close>

theorem tryConnectForever_never_retries:
  assumes "dev cl = Some d"
    and "Connect env d (connectCalls d (trace cl)) = Some err"
  shows "tryConnectForever env coolDown fuel cl =
     Unfinished (cl\<lparr>trace := trace cl @
        [Log Info ''Attempting to connect to %q indefinitely...\<newline>'' [S (Address d)],
         ConnectCall d (Some err)] @
        concat (replicate fuel
          [Log Debug ''Error encountered during connection attempt to Bluetooth device: %v (retrying...)\<newline>''
             [E (Lib err)],
           Sleep coolDown])\<rparr>)"
  using assms
  by (simp add: tryConnectForever_def retryLoop_Some act_defs connectCalls_def)

text \<open>
  The sound bar fails once and would accept the second call; after two rounds of the
  loop there has been one call of \<open>Connect\<close> and two sleeps.
\<close>

theorem tryConnectForever_never_retries_witness:
  "dev (fresh\<lparr>dev := Some soundbar\<rparr>) = Some soundbar \<and>
   Connect world soundbar (connectCalls soundbar (trace (fresh\<lparr>dev := Some soundbar\<rparr>)))
     = Some (LibError ''host is down'') \<and>
   Connect world soundbar 1 = None \<and>
   tryConnectForever world 50000000 2 (fresh\<lparr>dev := Some soundbar\<rparr>) =
     Unfinished (fresh\<lparr>dev := Some soundbar, trace :=
        [Log Info ''Attempting to connect to %q indefinitely...\<newline>'' [S ''AA:BB:CC:DD:EE:FF''],
         ConnectCall soundbar (Some (LibError ''host is down'')),
         Log Debug ''Error encountered during connection attempt to Bluetooth device: %v (retrying...)\<newline>''
           [E (Lib (LibError ''host is down''))],
         Sleep 50000000,
         Log Debug ''Error encountered during connection attempt to Bluetooth device: %v (retrying...)\<newline>''
           [E (Lib (LibError ''host is down''))],
         Sleep 50000000]\<rparr>)"
  using tryConnectForever_never_retries [of "fresh\<lparr>dev := Some soundbar\<rparr>" soundbar world
      "LibError ''host is down''" 50000000 2]
  by (simp add: world_def fresh_def connectCalls_def soundbar_def numeral_2_eq_2)

section \<open>The two scans\<close>

subsection \<open>Reading the calls of the predicate off the trace\<close>

lemma evaluations_append: "evaluations (xs @ ys) = evaluations xs @ evaluations ys"
  by (simp add: evaluations_def map_filter_def)

lemma evaluations_Cons:
  "evaluations (e # tr) =
     (case evaluation e of None \<Rightarrow> evaluations tr | Some p \<Rightarrow> p # evaluations tr)"
  by (simp add: evaluations_def map_filter_def split: option.splits)

lemma evaluations_Nil: "evaluations [] = []"
  by (simp add: evaluations_def map_filter_def)

subsection \<open>What the two loops change\<close>

lemma cacheLoop_dev:
  "dev (cacheLoop matchFunc devices cl) =
     (if devices = [] then dev cl else find (\<lambda>d. matchFunc (Address d) (Name d)) devices)"
  by (induction devices arbitrary: cl) (auto simp: Let_def act_defs)

lemma cacheLoop_pending: "pending (cacheLoop matchFunc devices cl) = pending cl"
  by (induction devices arbitrary: cl) (auto simp: Let_def act_defs)

lemma cacheLoop_retry_events:
  "filter retry_event (trace (cacheLoop matchFunc devices cl)) = filter retry_event (trace cl)"
  by (induction devices arbitrary: cl) (auto simp: Let_def act_defs)

lemma cacheLoop_evaluations:
  "evaluations (trace (cacheLoop matchFunc devices cl)) =
     evaluations (trace cl) @
     map addr_name (takeWhile (\<lambda>d. \<not> matchFunc (Address d) (Name d)) devices @
                    (case find (\<lambda>d. matchFunc (Address d) (Name d)) devices of
                       None \<Rightarrow> [] | Some d \<Rightarrow> [d]))"
  by (induction devices arbitrary: cl)
     (auto simp: Let_def act_defs evaluations_append evaluations_Cons evaluations_Nil addr_name_def)

lemma spec_handles_Nil: "spec_handles env [] = []"
  by (simp add: spec_handles_def)

lemma spec_handles_Cons:
  "spec_handles env (found # rest) =
     (if Type found = DeviceRemoved then spec_handles env rest
      else case NewDevice1 env (Path found) of
             Inl err \<Rightarrow> spec_handles env rest
           | Inr d \<Rightarrow> d # spec_handles env rest)"
  by (simp add: spec_handles_def split: sum.splits)

lemma discoverLoop_pending:
  "pending (client_of (discoverLoop env matchFunc events closed cl)) = pending cl"
  by (induction events arbitrary: cl) (auto simp: Let_def act_defs split: sum.splits)

lemma discoverLoop_retry_events:
  "filter retry_event (trace (client_of (discoverLoop env matchFunc events closed cl)))
     = filter retry_event (trace cl)"
  by (induction events arbitrary: cl) (auto simp: Let_def act_defs split: sum.splits)

lemma discoverLoop_cancel:
  "count_list (trace (client_of (discoverLoop env matchFunc events closed cl))) CancelDiscover
     = count_list (trace cl) CancelDiscover"
  by (induction events arbitrary: cl) (auto simp: Let_def act_defs split: sum.splits)

lemma discoverLoop_dev:
  "dev cl = None \<Longrightarrow>
   dev (client_of (discoverLoop env matchFunc events closed cl)) =
     find (\<lambda>d. matchFunc (Address d) (Name d)) (spec_handles env events)"
  by (induction events arbitrary: cl)
     (auto simp: Let_def act_defs spec_handles_Nil spec_handles_Cons split: sum.splits)

lemma discoverLoop_evaluations:
  "evaluations (trace (client_of (discoverLoop env matchFunc events closed cl))) =
     evaluations (trace cl) @
     map addr_name (takeWhile (\<lambda>d. \<not> matchFunc (Address d) (Name d)) (spec_handles env events) @
                    (case find (\<lambda>d. matchFunc (Address d) (Name d)) (spec_handles env events) of
                       None \<Rightarrow> [] | Some d \<Rightarrow> [d]))"
  by (induction events arbitrary: cl)
     (auto simp: Let_def act_defs spec_handles_Nil spec_handles_Cons evaluations_append
        evaluations_Cons evaluations_Nil addr_name_def split: sum.splits)

lemma discoverLoop_returned:
  "returned (discoverLoop env matchFunc events closed cl) =
     (closed \<or> find (\<lambda>d. matchFunc (Address d) (Name d)) (spec_handles env events) \<noteq> None)"
  by (induction events arbitrary: cl)
     (auto simp: Let_def act_defs spec_handles_Nil spec_handles_Cons split: sum.splits)

lemma discoverLoop_not_panicked:
  "\<not> panicked (discoverLoop env matchFunc events closed cl)"
  by (induction events arbitrary: cl)
     (auto simp: Let_def act_defs split: sum.splits)

lemma discoverLoop_started:
  "count_list (trace (client_of (discoverLoop env matchFunc events closed cl))) DiscoverCall
     = count_list (trace cl) DiscoverCall"
  by (induction events arbitrary: cl) (auto simp: Let_def act_defs split: sum.splits)

text \<open>What the cache scan returns on a client whose candidate slot is empty.\<close>

lemma tryCacheConnect_found:
  assumes "GetDevices env = Inr devices" and "dev cl = None"
  shows "tryCacheConnect env matchFunc config cl =
           (if find (\<lambda>d. matchFunc (Address d) (Name d)) devices \<noteq> None
            then (None, go (GoConnectForever (ConnectRetryCoolDown config))
                          (cacheLoop matchFunc devices (emit GetDevicesCall cl)))
            else (Some ErrBtDeviceNotFound, cacheLoop matchFunc devices (emit GetDevicesCall cl)))"
proof -
  have "dev (cacheLoop matchFunc devices (emit GetDevicesCall cl))
             = find (\<lambda>d. matchFunc (Address d) (Name d)) devices"
    using assms(2) by (cases devices) (simp_all add: cacheLoop_dev emit_def del: cacheLoop.simps)
  with assms(1) show ?thesis
    by (simp add: tryCacheConnect_def Let_def)
qed

subsection \<open>The cache scan\<close>

text \<open>
  C6. With the candidate slot empty on entry (as \<open>NewClient\<close> leaves it), the cache
  scan selects the first device of the enumeration that satisfies the predicate; the
  predicate is called on the devices before it and on it, in enumeration order, and on
  no device after it; with a match the retry loop is started and nil is returned;
  without one the slot stays empty, nothing is started and \<open>ErrBtDeviceNotFound\<close> is
  returned.
\<close>

theorem tryCacheConnect_first_match:
  assumes "GetDevices env = Inr devices" and "dev cl = None"
  shows "dev (snd (tryCacheConnect env matchFunc config cl))
           = find (\<lambda>d. matchFunc (Address d) (Name d)) devices \<and>
         fst (tryCacheConnect env matchFunc config cl)
           = (if find (\<lambda>d. matchFunc (Address d) (Name d)) devices = None
              then Some ErrBtDeviceNotFound else None) \<and>
         evaluations (trace (snd (tryCacheConnect env matchFunc config cl)))
           = evaluations (trace cl) @
             map addr_name (takeWhile (\<lambda>d. \<not> matchFunc (Address d) (Name d)) devices @
                            (case find (\<lambda>d. matchFunc (Address d) (Name d)) devices of
                               None \<Rightarrow> [] | Some d \<Rightarrow> [d])) \<and>
         pending (snd (tryCacheConnect env matchFunc config cl))
           = pending cl @
             (case find (\<lambda>d. matchFunc (Address d) (Name d)) devices of
                None \<Rightarrow> [] | Some d \<Rightarrow> [GoConnectForever (ConnectRetryCoolDown config)])"
proof -
  let ?cl0 = "emit GetDevicesCall cl"
  let ?cl1 = "cacheLoop matchFunc devices ?cl0"
  let ?found = "find (\<lambda>d. matchFunc (Address d) (Name d)) devices"
  have d: "dev ?cl1 = ?found"
    using assms(2) by (cases devices) (simp_all add: cacheLoop_dev emit_def del: cacheLoop.simps)
  have e: "evaluations (trace ?cl1) = evaluations (trace cl) @
             map addr_name (takeWhile (\<lambda>d. \<not> matchFunc (Address d) (Name d)) devices @
                            (case ?found of None \<Rightarrow> [] | Some d \<Rightarrow> [d]))"
    by (simp add: cacheLoop_evaluations emit_def evaluations_append evaluations_Cons
          evaluations_Nil del: cacheLoop.simps)
  have p: "pending ?cl1 = pending cl"
    by (simp add: cacheLoop_pending emit_def)
  have r: "tryCacheConnect env matchFunc config cl =
             (if ?found \<noteq> None then (None, go (GoConnectForever (ConnectRetryCoolDown config)) ?cl1)
              else (Some ErrBtDeviceNotFound, ?cl1))"
    using assms(1) d by (simp add: tryCacheConnect_def Let_def)
  show ?thesis
  proof (cases ?found)
    case None
    with r d e p show ?thesis by simp
  next
    case (Some x)
    with r d e p show ?thesis
      by (simp add: go_def evaluations_append evaluations_Cons evaluations_Nil)
  qed
qed

text \<open>
  The cache of \<open>world\<close>: the speaker does not match, the sound bar and the spare
  both do. The sound bar is selected and the spare is never evaluated.
\<close>

theorem tryCacheConnect_first_match_witness:
  "GetDevices world = Inr [speaker, soundbar, soundbar2] \<and> dev fresh = None \<and>
   \<not> wants_K850 (Address speaker) (Name speaker) \<and>
   wants_K850 (Address soundbar) (Name soundbar) \<and>
   wants_K850 (Address soundbar2) (Name soundbar2) \<and>
   dev (snd (tryCacheConnect world wants_K850 by_name fresh)) = Some soundbar \<and>
   fst (tryCacheConnect world wants_K850 by_name fresh) = None \<and>
   evaluations (trace (snd (tryCacheConnect world wants_K850 by_name fresh)))
     = [addr_name speaker, addr_name soundbar] \<and>
   pending (snd (tryCacheConnect world wants_K850 by_name fresh)) = [GoConnectForever 50000000]"
proof -
  have g: "GetDevices world = Inr [speaker, soundbar, soundbar2]" by (simp add: world_def)
  have f: "dev fresh = None" by (simp add: fresh_def)
  have m: "\<not> wants_K850 (Address speaker) (Name speaker)"
    "wants_K850 (Address soundbar) (Name soundbar)"
    "wants_K850 (Address soundbar2) (Name soundbar2)"
    by (simp_all add: wants_K850_def speaker_def soundbar_def soundbar2_def)
  show ?thesis
    using tryCacheConnect_first_match [OF g f, of wants_K850 by_name] g f m
    by (simp add: evaluations_Nil fresh_def by_name_def)
qed

subsection \<open>The discovery scan\<close>

text \<open>
  C8. After a successful start of the discovery, \<open>tryDiscoveryConnect\<close> returns exactly
  when a handle matches or the channel is closed after its last event (otherwise it is
  blocked on the channel for ever); and on each of these paths it does return, with or
  without an error, having called the cancel function of that discovery exactly once, as
  its last action.
\<close>

theorem tryDiscoveryConnect_cancels_once:
  assumes "Discover env = Inr ch"
  shows "returned (tryDiscoveryConnect env matchFunc config cl) =
           (closes ch \<or>
            find (\<lambda>d. matchFunc (Address d) (Name d)) (spec_handles env (arrivals ch)) \<noteq> None) \<and>
         (closes ch \<or>
          find (\<lambda>d. matchFunc (Address d) (Name d)) (spec_handles env (arrivals ch)) \<noteq> None \<longrightarrow>
            (\<exists>err cl'.
               tryDiscoveryConnect env matchFunc config cl = Returned (err, cl') \<and>
               count_list (trace cl') CancelDiscover = count_list (trace cl) CancelDiscover + 1 \<and>
               last (trace cl') = CancelDiscover \<and>
               count_list (trace cl') DiscoverCall = count_list (trace cl) DiscoverCall + 1))"
proof -
  let ?cl1 = "(emit DiscoverCall cl)\<lparr>discoverChan := Some ch, cancelDiscoverFn := Some StopDiscovery\<rparr>"
  let ?out = "discoverLoop env matchFunc (arrivals ch) (closes ch) ?cl1"
  let ?exits = "closes ch \<or>
     find (\<lambda>d. matchFunc (Address d) (Name d)) (spec_handles env (arrivals ch)) \<noteq> None"
  have c: "count_list (trace (client_of ?out)) CancelDiscover = count_list (trace cl) CancelDiscover"
    by (simp add: discoverLoop_cancel emit_def)
  have s: "count_list (trace (client_of ?out)) DiscoverCall = count_list (trace cl) DiscoverCall + 1"
    by (simp add: discoverLoop_started emit_def)
  have e: "returned ?out = ?exits"
    by (simp add: discoverLoop_returned)
  have n: "\<not> panicked ?out"
    by (rule discoverLoop_not_panicked)
  show ?thesis
  proof (cases ?out)
    case (Returned cl2)
    from Returned c s
    have c2: "count_list (trace cl2) CancelDiscover = count_list (trace cl) CancelDiscover"
      and s2: "count_list (trace cl2) DiscoverCall = count_list (trace cl) DiscoverCall + 1"
      by simp_all
    from Returned e have x: ?exits by simp
    have r: "tryDiscoveryConnect env matchFunc config cl =
               (if dev cl2 \<noteq> None
                then Returned (None, emit CancelDiscover
                                 (go (GoConnectForever (ConnectRetryCoolDown config)) cl2))
                else Returned (Some ErrBtDeviceNotFound, emit CancelDiscover cl2))"
      using assms Returned by (simp add: tryDiscoveryConnect_def Let_def)
    show ?thesis
    proof (cases "dev cl2")
      case None
      with r x c2 s2 show ?thesis by (simp add: emit_def)
    next
      case (Some d)
      with r x c2 s2 show ?thesis by (simp add: emit_def go_def)
    qed
  next
    case (Unfinished cl2)
    from Unfinished e have x: "\<not> ?exits" by simp
    have "tryDiscoveryConnect env matchFunc config cl = Unfinished cl2"
      using assms Unfinished by (simp add: tryDiscoveryConnect_def Let_def)
    with x show ?thesis by simp
  next
    case (Panicked cl2)
    with n show ?thesis by simp
  qed
qed

lemma world_discovery:
  "tryDiscoveryConnect world wants_K850 by_name fresh = Returned (None, found_by_discovery)"
  by (simp add: tryDiscoveryConnect_def world_def wants_K850_def by_name_def fresh_def
        found_by_discovery_def discovered_def speaker_def soundbar_def act_defs Let_def)

lemma world_Discover: "Discover world = Inr discovered"
  by (simp add: world_def)

lemma world_handles: "spec_handles world (arrivals discovered) = [speaker, soundbar]"
  by (simp add: spec_handles_Cons spec_handles_Nil world_def discovered_def speaker_def
        soundbar_def)

lemma no_match_discovery:
  "tryDiscoveryConnect no_match wants_K850 by_name fresh
     = Returned (Some ErrBtDeviceNotFound, not_discovered)"
  by (simp add: tryDiscoveryConnect_def no_match_def only_speaker_def world_def wants_K850_def
        by_name_def fresh_def not_discovered_def speaker_def soundbar_def act_defs Let_def)

text \<open>
  The discovery of \<open>world\<close> (a speaker that does not match, a removal, a device without
  a handle, then the sound bar) returns on the match; the discovery of \<open>no_match\<close> (the
  speaker, then the channel is closed) returns \<open>ErrBtDeviceNotFound\<close>. In both the
  cancel function has been called once, last.
\<close>

theorem tryDiscoveryConnect_cancels_once_witness:
  "Discover world = Inr discovered \<and>
   find (\<lambda>d. wants_K850 (Address d) (Name d)) (spec_handles world (arrivals discovered))
     = Some soundbar \<and>
   tryDiscoveryConnect world wants_K850 by_name fresh = Returned (None, found_by_discovery) \<and>
   count_list (trace fresh) CancelDiscover = 0 \<and>
   count_list (trace found_by_discovery) CancelDiscover = 1 \<and>
   last (trace found_by_discovery) = CancelDiscover \<and>
   count_list (trace found_by_discovery) DiscoverCall = 1 \<and>
   Discover no_match = Inr only_speaker \<and> closes only_speaker \<and>
   find (\<lambda>d. wants_K850 (Address d) (Name d)) (spec_handles no_match (arrivals only_speaker))
     = None \<and>
   tryDiscoveryConnect no_match wants_K850 by_name fresh
     = Returned (Some ErrBtDeviceNotFound, not_discovered) \<and>
   count_list (trace not_discovered) CancelDiscover = 1 \<and>
   last (trace not_discovered) = CancelDiscover \<and>
   count_list (trace not_discovered) DiscoverCall = 1"
proof -
  have f: "count_list (trace fresh) CancelDiscover = 0" "count_list (trace fresh) DiscoverCall = 0"
    by (simp_all add: fresh_def)
  have m: "find (\<lambda>d. wants_K850 (Address d) (Name d)) (spec_handles world (arrivals discovered))
             = Some soundbar"
    by (simp add: world_handles wants_K850_def speaker_def soundbar_def)
  have d: "Discover no_match = Inr only_speaker"
    by (simp add: no_match_def)
  have k: "closes only_speaker"
    by (simp add: only_speaker_def)
  have h: "find (\<lambda>d. wants_K850 (Address d) (Name d))
             (spec_handles no_match (arrivals only_speaker)) = None"
    by (simp add: spec_handles_Cons spec_handles_Nil no_match_def only_speaker_def world_def
          wants_K850_def speaker_def)
  from tryDiscoveryConnect_cancels_once [OF world_Discover, of wants_K850 by_name fresh] m
  obtain err cl' where "tryDiscoveryConnect world wants_K850 by_name fresh = Returned (err, cl')"
    and w: "count_list (trace cl') CancelDiscover = count_list (trace fresh) CancelDiscover + 1"
      "last (trace cl') = CancelDiscover"
      "count_list (trace cl') DiscoverCall = count_list (trace fresh) DiscoverCall + 1"
    by auto
  with world_discovery have w': "cl' = found_by_discovery" by simp
  from tryDiscoveryConnect_cancels_once [OF d, of wants_K850 by_name fresh] k
  obtain err2 cl2 where "tryDiscoveryConnect no_match wants_K850 by_name fresh = Returned (err2, cl2)"
    and n: "count_list (trace cl2) CancelDiscover = count_list (trace fresh) CancelDiscover + 1"
      "last (trace cl2) = CancelDiscover"
      "count_list (trace cl2) DiscoverCall = count_list (trace fresh) DiscoverCall + 1"
    by auto
  with no_match_discovery have n': "cl2 = not_discovered" by simp
  from w w' n n' f m d k h world_Discover world_discovery no_match_discovery
  show ?thesis by simp
qed

text \<open>
  The discovery is started only after the cache scan has returned \<open>ErrBtDeviceNotFound\<close>,
  and that leaves the candidate slot empty, whatever it held before.
\<close>

lemma tryCacheConnect_miss_slot:
  assumes "tryCacheConnect env matchFunc config cl = (Some err, cl')"
    and "errors_Is err ErrBtDeviceNotFound"
  shows "dev cl' = None"
  using assms
  by (auto simp: tryCacheConnect_def Let_def split: sum.splits if_splits)

text \<open>
  C7. With the candidate slot empty on entry (as the cache scan leaves it when it finds
  nothing), the discovery scan takes the events in arrival order, passes over the
  removals and over the events whose handle cannot be created, and selects the first
  handle that satisfies the predicate, calling the predicate on no later handle; then
  it starts the retry loop and returns nil. When the channel is closed and no handle
  matched, the slot is empty, nothing is started and \<open>ErrBtDeviceNotFound\<close> is returned.
\<close>

theorem tryDiscoveryConnect_first_match:
  assumes "Discover env = Inr ch" and "dev cl = None"
    and "closes ch \<or>
         find (\<lambda>d. matchFunc (Address d) (Name d)) (spec_handles env (arrivals ch)) \<noteq> None"
  shows "\<exists>cl'.
      tryDiscoveryConnect env matchFunc config cl =
        Returned (if find (\<lambda>d. matchFunc (Address d) (Name d)) (spec_handles env (arrivals ch)) = None
                  then Some ErrBtDeviceNotFound else None, cl') \<and>
      dev cl' = find (\<lambda>d. matchFunc (Address d) (Name d)) (spec_handles env (arrivals ch)) \<and>
      evaluations (trace cl') =
        evaluations (trace cl) @
        map addr_name
          (takeWhile (\<lambda>d. \<not> matchFunc (Address d) (Name d)) (spec_handles env (arrivals ch)) @
           (case find (\<lambda>d. matchFunc (Address d) (Name d)) (spec_handles env (arrivals ch)) of
              None \<Rightarrow> [] | Some d \<Rightarrow> [d])) \<and>
      pending cl' =
        pending cl @
        (case find (\<lambda>d. matchFunc (Address d) (Name d)) (spec_handles env (arrivals ch)) of
           None \<Rightarrow> [] | Some d \<Rightarrow> [GoConnectForever (ConnectRetryCoolDown config)])"
proof -
  let ?cl1 = "(emit DiscoverCall cl)\<lparr>discoverChan := Some ch, cancelDiscoverFn := Some StopDiscovery\<rparr>"
  let ?out = "discoverLoop env matchFunc (arrivals ch) (closes ch) ?cl1"
  let ?found = "find (\<lambda>d. matchFunc (Address d) (Name d)) (spec_handles env (arrivals ch))"
  have "returned ?out"
    using assms(3) by (simp add: discoverLoop_returned)
  then obtain cl2 where o: "?out = Returned cl2"
    by (cases ?out) simp_all
  have d: "dev (client_of ?out) = ?found"
    using assms(2) by (simp add: discoverLoop_dev emit_def)
  have e: "evaluations (trace (client_of ?out)) = evaluations (trace cl) @
             map addr_name
               (takeWhile (\<lambda>d. \<not> matchFunc (Address d) (Name d)) (spec_handles env (arrivals ch)) @
                (case ?found of None \<Rightarrow> [] | Some d \<Rightarrow> [d]))"
    by (simp add: discoverLoop_evaluations emit_def evaluations_append evaluations_Cons
          evaluations_Nil)
  have p: "pending (client_of ?out) = pending cl"
    by (simp add: discoverLoop_pending emit_def)
  have r: "tryDiscoveryConnect env matchFunc config cl =
             (if dev cl2 \<noteq> None
              then Returned (None, emit CancelDiscover
                               (go (GoConnectForever (ConnectRetryCoolDown config)) cl2))
              else Returned (Some ErrBtDeviceNotFound, emit CancelDiscover cl2))"
    using assms(1) o by (simp add: tryDiscoveryConnect_def Let_def)
  from o d e p have d2: "dev cl2 = ?found"
    and e2: "evaluations (trace cl2) = evaluations (trace cl) @
             map addr_name
               (takeWhile (\<lambda>d. \<not> matchFunc (Address d) (Name d)) (spec_handles env (arrivals ch)) @
                (case ?found of None \<Rightarrow> [] | Some d \<Rightarrow> [d]))"
    and p2: "pending cl2 = pending cl"
    by simp_all
  show ?thesis
  proof (cases ?found)
    case None
    with r d2 e2 p2 show ?thesis
      by (simp add: emit_def evaluations_append evaluations_Cons evaluations_Nil)
  next
    case (Some x)
    with r d2 e2 p2 show ?thesis
      by (simp add: emit_def go_def evaluations_append evaluations_Cons evaluations_Nil)
  qed
qed

theorem tryDiscoveryConnect_first_match_witness:
  "Discover world = Inr discovered \<and> dev fresh = None \<and> closes discovered \<and>
   spec_handles world (arrivals discovered) = [speaker, soundbar] \<and>
   \<not> wants_K850 (Address speaker) (Name speaker) \<and>
   wants_K850 (Address soundbar) (Name soundbar) \<and>
   tryDiscoveryConnect world wants_K850 by_name fresh = Returned (None, found_by_discovery) \<and>
   dev found_by_discovery = Some soundbar \<and>
   evaluations (trace found_by_discovery) = [addr_name speaker, addr_name soundbar] \<and>
   pending found_by_discovery = [GoConnectForever 50000000]"
proof -
  have f: "dev fresh = None" by (simp add: fresh_def)
  have c: "closes discovered" by (simp add: discovered_def)
  then have c': "closes discovered \<or>
      find (\<lambda>d. wants_K850 (Address d) (Name d)) (spec_handles world (arrivals discovered)) \<noteq> None"
    by simp
  have m: "\<not> wants_K850 (Address speaker) (Name speaker)"
    "wants_K850 (Address soundbar) (Name soundbar)"
    by (simp_all add: wants_K850_def speaker_def soundbar_def)
  from tryDiscoveryConnect_first_match [OF world_Discover f c', of by_name] world_handles m
  obtain cl' where r: "tryDiscoveryConnect world wants_K850 by_name fresh = Returned (None, cl')"
    and s: "dev cl' = Some soundbar"
      "evaluations (trace cl') = evaluations (trace fresh) @ [addr_name speaker, addr_name soundbar]"
      "pending cl' = pending fresh @ [GoConnectForever (ConnectRetryCoolDown by_name)]"
    by auto
  from r world_discovery have "cl' = found_by_discovery" by simp
  with s world_Discover f c world_handles m world_discovery show ?thesis
    by (simp add: evaluations_Nil fresh_def by_name_def)
qed

section \<open>The configuration and the predicate\<close>

lemma tryCacheConnect_config:
  "ConnectRetryCoolDown c1 = ConnectRetryCoolDown c2 \<Longrightarrow>
   tryCacheConnect env matchFunc c1 cl = tryCacheConnect env matchFunc c2 cl"
  by (simp add: tryCacheConnect_def Let_def split: sum.splits)

lemma world_clean:
  "CleanMacAddress world ''aa-bb-cc-dd-ee-ff'' = Inr ''AA:BB:CC:DD:EE:FF''"
  "CleanMacAddress world ''aa:bb:cc:dd:ee:ff'' = Inr ''AA:BB:CC:DD:EE:FF''"
  "CleanMacAddress world ''AA:BB:CC:DD:EE:FF'' = Inr ''AA:BB:CC:DD:EE:FF''"
  by (simp_all add: world_def CleanMacAddress_model_def is_hex_def to_upper_def)

text \<open>
  C4, as the code has it. For a configuration with an address that \<open>CleanMacAddress\<close>
  accepts, the predicate answers true on a candidate exactly when the candidate's
  address, as the device reports it, is the cleaned target address, character for
  character; the candidate's address is not cleaned and its name is not looked at.
\<close>

theorem matchFunc_exact_address:
  assumes "DeviceAddress config \<noteq> []"
    and "CleanMacAddress env (DeviceAddress config) = Inr target"
  shows "matchFunc_on env config mac name = Some (mac = target)"
  using assms
  by (simp add: SearchAndConnect_matchFunc_def matchFunc_on_def)

text \<open>
  The target is written with hyphens and lower case and is cleaned to the canonical form.
  A candidate with the canonical address matches whatever its name; another address does
  not.
\<close>

theorem matchFunc_exact_address_witness:
  "DeviceAddress by_address \<noteq> [] \<and>
   CleanMacAddress world (DeviceAddress by_address) = Inr ''AA:BB:CC:DD:EE:FF'' \<and>
   matchFunc_on world by_address ''AA:BB:CC:DD:EE:FF'' ''Sound Bar K850'' = Some True \<and>
   matchFunc_on world by_address ''AA:BB:CC:DD:EE:FF'' ''Kitchen Speaker'' = Some True \<and>
   matchFunc_on world by_address ''11:22:33:44:55:66'' ''Sound Bar K850'' = Some False"
proof -
  have a: "DeviceAddress by_address \<noteq> []" by (simp add: by_address_def)
  have c: "CleanMacAddress world (DeviceAddress by_address) = Inr ''AA:BB:CC:DD:EE:FF''"
    by (simp add: by_address_def world_clean)
  show ?thesis
    using matchFunc_exact_address [OF a c, of "''AA:BB:CC:DD:EE:FF''" "''Sound Bar K850''"]
      matchFunc_exact_address [OF a c, of "''AA:BB:CC:DD:EE:FF''" "''Kitchen Speaker''"]
      matchFunc_exact_address [OF a c, of "''11:22:33:44:55:66''" "''Sound Bar K850''"]
      a c
    by simp
qed

text \<open>
  C4 as stated does not hold: the candidate address \<open>aa:bb:cc:dd:ee:ff\<close> is cleaned to
  the cleaned target, so the claim makes the predicate answer true on it; the predicate
  answers false.
\<close>

theorem matchFunc_normalized_candidate_counterexample:
  "DeviceAddress by_address \<noteq> [] \<and>
   CleanMacAddress world (DeviceAddress by_address) = Inr ''AA:BB:CC:DD:EE:FF'' \<and>
   CleanMacAddress world ''aa:bb:cc:dd:ee:ff'' = Inr ''AA:BB:CC:DD:EE:FF'' \<and>
   matchFunc_on world by_address ''aa:bb:cc:dd:ee:ff'' ''Sound Bar K850'' = Some False"
  by (simp add: matchFunc_on_def SearchAndConnect_matchFunc_def by_address_def world_clean)

text \<open>
  C9. With no address and a non-empty pattern: when the pattern does not compile,
  \<open>SearchAndConnect\<close> returns the wrapped compile error and the client is left as it
  was, so that nothing has been scanned or started; when it compiles, the predicate
  answers on a candidate what \<open>MatchString\<close> answers on the candidate's name, whatever
  its address. (An empty pattern is no pattern: the code returns the missing-criterion
  error for it before it would compile it.)
\<close>

theorem SearchAndConnect_name_pattern:
  assumes "DeviceAddress config = []" and "DeviceRegex config \<noteq> []"
  shows "(regexp_Compile env (DeviceRegex config) = Inl err \<longrightarrow>
            SearchAndConnect env config cl =
              (Some (fmt_Errorf_w ''error compiling regular expression'' (Lib err)), cl)) \<and>
         (regexp_Compile env (DeviceRegex config) = Inr rxp \<longrightarrow>
            matchFunc_on env config mac name = Some (MatchString env rxp name))"
  using assms
  by (simp add: SearchAndConnect_def SearchAndConnect_matchFunc_def matchFunc_on_def)

text \<open>
  The pattern \<open>(\<close> does not compile; the pattern \<open>K850\<close> matches the sound bar's name and
  not the speaker's.
\<close>

theorem SearchAndConnect_name_pattern_witness:
  "DeviceAddress (by_name\<lparr>DeviceRegex := ''(''\<rparr>) = [] \<and>
   DeviceRegex (by_name\<lparr>DeviceRegex := ''(''\<rparr>) \<noteq> [] \<and>
   regexp_Compile world (DeviceRegex (by_name\<lparr>DeviceRegex := ''(''\<rparr>))
     = Inl (LibError ''missing closing )'') \<and>
   SearchAndConnect world (by_name\<lparr>DeviceRegex := ''(''\<rparr>) fresh =
     (Some (fmt_Errorf_w ''error compiling regular expression''
              (Lib (LibError ''missing closing )''))), fresh) \<and>
   DeviceAddress by_name = [] \<and> DeviceRegex by_name \<noteq> [] \<and>
   regexp_Compile world (DeviceRegex by_name) = Inr ''K850'' \<and>
   matchFunc_on world by_name ''AA:BB:CC:DD:EE:FF'' ''Sound Bar K850'' = Some True \<and>
   matchFunc_on world by_name ''AA:BB:CC:DD:EE:FF'' ''Kitchen Speaker'' = Some False"
proof -
  let ?bad = "by_name\<lparr>DeviceRegex := ''(''\<rparr>"
  have a: "DeviceAddress ?bad = []" "DeviceAddress by_name = []"
    by (simp_all add: by_name_def)
  have r: "DeviceRegex ?bad \<noteq> []" "DeviceRegex by_name \<noteq> []"
    by (simp_all add: by_name_def)
  have c: "regexp_Compile world (DeviceRegex ?bad) = Inl (LibError ''missing closing )'')"
    "regexp_Compile world (DeviceRegex by_name) = Inr ''K850''"
    by (simp_all add: world_def by_name_def plain_Compile_def)
  have m: "MatchString world ''K850'' ''Sound Bar K850''"
    "\<not> MatchString world ''K850'' ''Kitchen Speaker''"
    by (simp_all add: world_def)
  show ?thesis
    using SearchAndConnect_name_pattern [OF a(1) r(1), of world "LibError ''missing closing )''" fresh]
      SearchAndConnect_name_pattern [OF a(2) r(2), of world _ _ "''K850''" "''AA:BB:CC:DD:EE:FF''" "''Sound Bar K850''"]
      SearchAndConnect_name_pattern [OF a(2) r(2), of world _ _ "''K850''" "''AA:BB:CC:DD:EE:FF''" "''Kitchen Speaker''"]
      a r c m
    by simp
qed

text \<open>
  C5. With neither an address nor a pattern, \<open>SearchAndConnect\<close> returns the
  missing-criterion error and leaves the client as it was. With both, the pattern is
  never looked at: the predicate, the returned error, the candidate slot and the trace
  are those of the same configuration without the pattern. With both and a well-formed
  address the configuration is accepted and the address decides: the predicate is the
  exact-address rule, the call never returns the missing-criterion error, and when the
  cache can be listed (on a client with an empty slot) the call returns nil and the slot
  holds the first cached device whose address is the cleaned target, whatever the names.
\<close>

theorem SearchAndConnect_criteria:
  "(DeviceAddress config = [] \<and> DeviceRegex config = [] \<longrightarrow>
      SearchAndConnect env config cl =
        (Some (fmt_Errorf ''either config.DeviceAddress or config.DeviceRegex must be specified''),
         cl)) \<and>
   (DeviceAddress config \<noteq> [] \<and> DeviceRegex config \<noteq> [] \<longrightarrow>
      matchFunc_on env config mac name
        = matchFunc_on env (config\<lparr>DeviceRegex := []\<rparr>) mac name \<and>
      fst (SearchAndConnect env config cl)
        = fst (SearchAndConnect env (config\<lparr>DeviceRegex := []\<rparr>) cl) \<and>
      dev (snd (SearchAndConnect env config cl))
        = dev (snd (SearchAndConnect env (config\<lparr>DeviceRegex := []\<rparr>) cl)) \<and>
      trace (snd (SearchAndConnect env config cl))
        = trace (snd (SearchAndConnect env (config\<lparr>DeviceRegex := []\<rparr>) cl)) \<and>
      (CleanMacAddress env (DeviceAddress config) = Inr target \<longrightarrow>
         matchFunc_on env config mac name = Some (mac = target) \<and>
         fst (SearchAndConnect env config cl)
           \<noteq> Some (fmt_Errorf
                     ''either config.DeviceAddress or config.DeviceRegex must be specified'') \<and>
         (GetDevices env = Inr devices \<and> dev cl = None \<longrightarrow>
            fst (SearchAndConnect env config cl) = None \<and>
            dev (snd (SearchAndConnect env config cl))
              = find (\<lambda>d. Address d = target) devices)))"
proof -
  have t: "tryCacheConnect env matchFunc (config\<lparr>DeviceRegex := [], DeviceAddress := a\<rparr>) cl1
         = tryCacheConnect env matchFunc (config\<lparr>DeviceAddress := a\<rparr>) cl1"
    for matchFunc a cl1
    by (rule tryCacheConnect_config) simp
  have same: "(DeviceAddress config = [] \<and> DeviceRegex config = [] \<longrightarrow>
      SearchAndConnect env config cl =
        (Some (fmt_Errorf ''either config.DeviceAddress or config.DeviceRegex must be specified''),
         cl)) \<and>
   (DeviceAddress config \<noteq> [] \<and> DeviceRegex config \<noteq> [] \<longrightarrow>
      matchFunc_on env config mac name
        = matchFunc_on env (config\<lparr>DeviceRegex := []\<rparr>) mac name \<and>
      fst (SearchAndConnect env config cl)
        = fst (SearchAndConnect env (config\<lparr>DeviceRegex := []\<rparr>) cl) \<and>
      dev (snd (SearchAndConnect env config cl))
        = dev (snd (SearchAndConnect env (config\<lparr>DeviceRegex := []\<rparr>) cl)) \<and>
      trace (snd (SearchAndConnect env config cl))
        = trace (snd (SearchAndConnect env (config\<lparr>DeviceRegex := []\<rparr>) cl)) \<and>
      (CleanMacAddress env (DeviceAddress config) = Inr target \<longrightarrow>
         matchFunc_on env config mac name = Some (mac = target)))"
    by (auto simp: SearchAndConnect_def SearchAndConnect_matchFunc_def matchFunc_on_def t go_def
          split: sum.splits prod.splits option.splits)
  have accepted: "fst (SearchAndConnect env config cl)
           \<noteq> Some (fmt_Errorf
                     ''either config.DeviceAddress or config.DeviceRegex must be specified'') \<and>
         (GetDevices env = Inr devices \<and> dev cl = None \<longrightarrow>
            fst (SearchAndConnect env config cl) = None \<and>
            dev (snd (SearchAndConnect env config cl))
              = find (\<lambda>d. Address d = target) devices)"
    if a: "DeviceAddress config \<noteq> []"
      and c: "CleanMacAddress env (DeviceAddress config) = Inr target"
  proof -
    let ?mf = "\<lambda>mac (_::string). mac = target"
    let ?cl1 = "Infof ''Starting tryCacheConnect...\<newline>'' [] cl"
    have sw: "SearchAndConnect_matchFunc env config
                = Inr (?mf, config\<lparr>DeviceAddress := target\<rparr>)"
      using a c by (simp add: SearchAndConnect_matchFunc_def)
    have no: "fst (SearchAndConnect env config cl)
           \<noteq> Some (fmt_Errorf
                     ''either config.DeviceAddress or config.DeviceRegex must be specified'')"
      using sw by (auto simp: SearchAndConnect_def split: prod.splits option.splits)
    have sel: "fst (SearchAndConnect env config cl) = None \<and>
               dev (snd (SearchAndConnect env config cl))
                 = find (\<lambda>d. Address d = target) devices"
      if g: "GetDevices env = Inr devices" and e: "dev cl = None"
    proof -
      have d1: "dev ?cl1 = None" using e by (simp add: act_defs)
      have d2: "dev (cacheLoop ?mf devices (emit GetDevicesCall ?cl1))
                  = find (\<lambda>d. Address d = target) devices"
        using e by (cases devices) (simp_all add: cacheLoop_dev act_defs del: cacheLoop.simps)
      show ?thesis
        using sw d2
        by (simp add: SearchAndConnect_def tryCacheConnect_found [OF g d1] go_def)
    qed
    from no sel show ?thesis by blast
  qed
  from same accepted show ?thesis by blast
qed

text \<open>
  Neither criterion: the error. Both, with a pattern that would not even compile: the
  address rule decides, the call returns nil and has selected the sound bar by its
  address.
\<close>

theorem SearchAndConnect_criteria_witness:
  "DeviceAddress (by_address\<lparr>DeviceAddress := []\<rparr>) = [] \<and>
   DeviceRegex (by_address\<lparr>DeviceAddress := []\<rparr>) = [] \<and>
   SearchAndConnect world (by_address\<lparr>DeviceAddress := []\<rparr>) fresh =
     (Some (fmt_Errorf ''either config.DeviceAddress or config.DeviceRegex must be specified''),
      fresh) \<and>
   DeviceAddress (by_address\<lparr>DeviceRegex := ''(''\<rparr>) \<noteq> [] \<and>
   DeviceRegex (by_address\<lparr>DeviceRegex := ''(''\<rparr>) \<noteq> [] \<and>
   CleanMacAddress world (DeviceAddress (by_address\<lparr>DeviceRegex := ''(''\<rparr>))
     = Inr ''AA:BB:CC:DD:EE:FF'' \<and>
   GetDevices world = Inr [speaker, soundbar, soundbar2] \<and> dev fresh = None \<and>
   matchFunc_on world (by_address\<lparr>DeviceRegex := ''(''\<rparr>) ''AA:BB:CC:DD:EE:FF'' ''Kitchen Speaker''
     = Some True \<and>
   matchFunc_on world (by_address\<lparr>DeviceRegex := ''(''\<rparr>) ''11:22:33:44:55:66'' ''(''
     = Some False \<and>
   fst (SearchAndConnect world (by_address\<lparr>DeviceRegex := ''(''\<rparr>) fresh)
     = fst (SearchAndConnect world by_address fresh) \<and>
   fst (SearchAndConnect world (by_address\<lparr>DeviceRegex := ''(''\<rparr>) fresh) = None \<and>
   dev (snd (SearchAndConnect world (by_address\<lparr>DeviceRegex := ''(''\<rparr>) fresh)) = Some soundbar"
proof -
  let ?none = "by_address\<lparr>DeviceAddress := []\<rparr>"
  let ?both = "by_address\<lparr>DeviceRegex := ''(''\<rparr>"
  have n: "DeviceAddress ?none = [] \<and> DeviceRegex ?none = []"
    by (simp add: by_address_def)
  have b: "DeviceAddress ?both \<noteq> [] \<and> DeviceRegex ?both \<noteq> []"
    by (simp add: by_address_def)
  have c: "CleanMacAddress world (DeviceAddress ?both) = Inr ''AA:BB:CC:DD:EE:FF''"
    by (simp add: by_address_def world_clean)
  have e: "?both\<lparr>DeviceRegex := []\<rparr> = by_address"
    by (simp add: by_address_def)
  have g: "GetDevices world = Inr [speaker, soundbar, soundbar2] \<and> dev fresh = None"
    by (simp add: world_def fresh_def)
  have 1: "SearchAndConnect world ?none fresh =
     (Some (fmt_Errorf ''either config.DeviceAddress or config.DeviceRegex must be specified''),
      fresh)"
    using SearchAndConnect_criteria [where config = ?none and env = world and cl = fresh] n
    by blast
  have 2: "matchFunc_on world ?both ''AA:BB:CC:DD:EE:FF'' ''Kitchen Speaker''
             = Some (''AA:BB:CC:DD:EE:FF'' = ''AA:BB:CC:DD:EE:FF'')"
    using SearchAndConnect_criteria [where config = ?both and env = world and cl = fresh
        and mac = "''AA:BB:CC:DD:EE:FF''" and name = "''Kitchen Speaker''"
        and target = "''AA:BB:CC:DD:EE:FF''"] b c
    by blast
  have 3: "matchFunc_on world ?both ''11:22:33:44:55:66'' ''(''
             = Some (''11:22:33:44:55:66'' = ''AA:BB:CC:DD:EE:FF'')"
    and 4: "fst (SearchAndConnect world ?both fresh)
             = fst (SearchAndConnect world (?both\<lparr>DeviceRegex := []\<rparr>) fresh)"
    and 5: "fst (SearchAndConnect world ?both fresh) = None"
    and 6: "dev (snd (SearchAndConnect world ?both fresh))
             = find (\<lambda>d. Address d = ''AA:BB:CC:DD:EE:FF'') [speaker, soundbar, soundbar2]"
    using SearchAndConnect_criteria [where config = ?both and env = world and cl = fresh
        and mac = "''11:22:33:44:55:66''" and name = "''(''"
        and target = "''AA:BB:CC:DD:EE:FF''" and devices = "[speaker, soundbar, soundbar2]"] b c g
    by blast+
  have 7: "find (\<lambda>d. Address d = ''AA:BB:CC:DD:EE:FF'') [speaker, soundbar, soundbar2]
             = Some soundbar"
    by (simp add: speaker_def soundbar_def)
  from 1 2 3 4 5 6 7 n b c e g show ?thesis
    by simp
qed

section \<open>Failure to list the cache\<close>

text \<open>
  C10. For a valid configuration (the switch returns no error), when \<open>GetDevices\<close>
  fails, \<open>SearchAndConnect\<close> returns the error wrapped twice, and the client differs
  from the one before the call by two trace entries only, the first log line and the
  call of \<open>GetDevices\<close>: the candidate slot is as it was (empty on a new client), no
  discovery was started and no goroutine was.
\<close>

theorem SearchAndConnect_cache_list_error:
  assumes "\<not> isl (SearchAndConnect_matchFunc env config)"
    and "GetDevices env = Inl err"
  shows "SearchAndConnect env config cl =
     (Some (fmt_Errorf_w ''error attempting connection through device cache''
              (fmt_Errorf_w ''error getting device cache list'' (Lib err))),
      cl\<lparr>trace := trace cl @ [Log Info ''Starting tryCacheConnect...\<newline>'' [], GetDevicesCall]\<rparr>)"
proof (cases "SearchAndConnect_matchFunc env config")
  case (Inl e)
  with assms(1) show ?thesis by simp
next
  case (Inr p)
  with assms(2) show ?thesis
    by (cases p) (simp add: SearchAndConnect_def tryCacheConnect_def act_defs)
qed

theorem SearchAndConnect_cache_list_error_witness:
  "\<not> isl (SearchAndConnect_matchFunc (world\<lparr>GetDevices := Inl (LibError ''org.bluez.Error.NotReady'')\<rparr>) by_name) \<and>
   GetDevices (world\<lparr>GetDevices := Inl (LibError ''org.bluez.Error.NotReady'')\<rparr>)
     = Inl (LibError ''org.bluez.Error.NotReady'') \<and>
   SearchAndConnect (world\<lparr>GetDevices := Inl (LibError ''org.bluez.Error.NotReady'')\<rparr>) by_name fresh =
     (Some (fmt_Errorf_w ''error attempting connection through device cache''
              (fmt_Errorf_w ''error getting device cache list''
                 (Lib (LibError ''org.bluez.Error.NotReady'')))),
      \<lparr>dev = None, discoverChan = None, cancelDiscoverFn = None,
       trace = [Log Info ''Starting tryCacheConnect...\<newline>'' [], GetDevicesCall],
       pending = []\<rparr>)"
proof -
  let ?w = "world\<lparr>GetDevices := Inl (LibError ''org.bluez.Error.NotReady'')\<rparr>"
  have v: "\<not> isl (SearchAndConnect_matchFunc ?w by_name)"
    by (simp add: SearchAndConnect_matchFunc_def world_def by_name_def plain_Compile_def)
  have g: "GetDevices ?w = Inl (LibError ''org.bluez.Error.NotReady'')"
    by simp
  show ?thesis
    using SearchAndConnect_cache_list_error [OF v g, of fresh] v g
    by (simp add: fresh_def)
qed

section \<open>The whole run: one call of SearchAndConnect and its goroutines\<close>

lemma runPending_idle: "pending cl = [] \<Longrightarrow> runPending env fuel k cl = Returned cl"
  by (cases k) simp_all

lemma cacheLoop_cancel:
  "count_list (trace (cacheLoop matchFunc devices cl)) CancelDiscover
     = count_list (trace cl) CancelDiscover"
  by (induction devices arbitrary: cl) (auto simp: Let_def act_defs)

lemma retry_event_sleeping:
  "filter retry_event (concat (replicate n [Log l f as, Sleep coolDown])) = []"
  by (induction n) simp_all

lemma tryConnectForever_lifecycle:
  assumes "dev cl = Some d" and "pending cl = []"
    and "filter retry_event (trace cl) = [Go TryConnectForever]"
  shows "lifecycle (client_of (tryConnectForever env coolDown fuel cl))"
    and "\<not> panicked (tryConnectForever env coolDown fuel cl)"
proof -
  let ?r = "Connect env d (connectCalls d (trace (Infof ''Attempting to connect to %q indefinitely...\<newline>'' [S (Address d)] cl)))"
  show "lifecycle (client_of (tryConnectForever env coolDown fuel cl))"
  proof (cases ?r)
    case None
    with assms show ?thesis
      by (simp add: tryConnectForever_def act_defs lifecycle_def)
  next
    case (Some err)
    with assms show ?thesis
      by (simp add: tryConnectForever_def retryLoop_Some retry_event_sleeping act_defs lifecycle_def)
  qed
  show "\<not> panicked (tryConnectForever env coolDown fuel cl)"
    using assms(1)
    by (cases ?r) (simp_all add: tryConnectForever_def retryLoop_Some Let_def)
qed

lemma discoveryGoroutine_lifecycle:
  assumes "dev cl = None" and "pending cl = []" and "filter retry_event (trace cl) = []"
  shows "lifecycle (client_of (discoveryGoroutine env matchFunc config cl))"
    and "\<not> panicked (discoveryGoroutine env matchFunc config cl)"
proof -
  let ?cl1 = "Infof ''Could not find device in cache, starting tryDiscoveryConnect...\<newline>'' [] cl"
  show "lifecycle (client_of (discoveryGoroutine env matchFunc config cl))"
  proof (cases "Discover env")
    case (Inl err)
    with assms show ?thesis
      by (simp add: discoveryGoroutine_def tryDiscoveryConnect_def act_defs lifecycle_def)
  next
    case (Inr ch)
    let ?cl2 = "(emit DiscoverCall ?cl1)\<lparr>discoverChan := Some ch, cancelDiscoverFn := Some StopDiscovery\<rparr>"
    let ?out = "discoverLoop env matchFunc (arrivals ch) (closes ch) ?cl2"
    have d: "dev (client_of ?out) = find (\<lambda>d. matchFunc (Address d) (Name d)) (spec_handles env (arrivals ch))"
      using assms(1) by (simp add: discoverLoop_dev act_defs)
    have p: "pending (client_of ?out) = []"
      using assms(2) by (simp add: discoverLoop_pending act_defs)
    have r: "filter retry_event (trace (client_of ?out)) = []"
      using assms(3) by (simp add: discoverLoop_retry_events act_defs)
    have n: "\<not> panicked ?out" by (rule discoverLoop_not_panicked)
    have u: "returned ?out \<or> dev (client_of ?out) = None"
      using d by (auto simp: discoverLoop_returned)
    show ?thesis
    proof (cases ?out)
      case (Returned cl3)
      with d p r Inr show ?thesis
        by (cases "dev cl3") (simp_all add: discoveryGoroutine_def tryDiscoveryConnect_def Let_def act_defs lifecycle_def)
    next
      case (Unfinished cl3)
      with d p r u Inr show ?thesis
        by (simp add: discoveryGoroutine_def tryDiscoveryConnect_def Let_def act_defs lifecycle_def)
    next
      case (Panicked cl3)
      with n show ?thesis by simp
    qed
  qed
  show "\<not> panicked (discoveryGoroutine env matchFunc config cl)"
  proof (cases "Discover env")
    case (Inl err)
    then show ?thesis
      by (simp add: discoveryGoroutine_def tryDiscoveryConnect_def Let_def)
  next
    case (Inr ch)
    let ?cl2 = "(emit DiscoverCall ?cl1)\<lparr>discoverChan := Some ch, cancelDiscoverFn := Some StopDiscovery\<rparr>"
    let ?out = "discoverLoop env matchFunc (arrivals ch) (closes ch) ?cl2"
    have n: "\<not> panicked ?out" by (rule discoverLoop_not_panicked)
    with Inr show ?thesis
      by (cases ?out) (simp_all add: discoveryGoroutine_def tryDiscoveryConnect_def Let_def)
  qed
qed


lemma errors_Is_cache_list:
  "\<not> errors_Is (fmt_Errorf_w ''error getting device cache list'' (Lib err)) ErrBtDeviceNotFound"
  by simp

lemma SearchAndConnect_lifecycle:
  assumes "dev cl = None" and "pending cl = []" and "filter retry_event (trace cl) = []"
  shows "lifecycle (snd (SearchAndConnect env config cl))"
proof (cases "SearchAndConnect_matchFunc env config")
  case (Inl err)
  with assms show ?thesis
    by (simp add: SearchAndConnect_def lifecycle_def)
next
  case (Inr p)
  obtain matchFunc config1 where p: "p = (matchFunc, config1)" by (cases p)
  let ?cl1 = "Infof ''Starting tryCacheConnect...\<newline>'' [] cl"
  have d1: "dev ?cl1 = None" using assms(1) by (simp add: act_defs)
  show ?thesis
  proof (cases "GetDevices env")
    case (Inl err)
    with Inr p assms show ?thesis
      by (simp add: SearchAndConnect_def tryCacheConnect_def act_defs lifecycle_def)
  next
    case devs: (Inr devices)
    let ?cl2 = "cacheLoop matchFunc devices (emit GetDevicesCall ?cl1)"
    have d: "dev ?cl2 = find (\<lambda>d. matchFunc (Address d) (Name d)) devices"
      using assms(1) by (cases devices) (simp_all add: cacheLoop_dev act_defs del: cacheLoop.simps)
    have q: "pending ?cl2 = []"
      using assms(2) by (simp add: cacheLoop_pending act_defs)
    have r: "filter retry_event (trace ?cl2) = []"
      using assms(3) by (simp add: cacheLoop_retry_events act_defs)
    show ?thesis
    proof (cases "find (\<lambda>d. matchFunc (Address d) (Name d)) devices")
      case None
      with Inr p d q r show ?thesis
        by (simp add: SearchAndConnect_def tryCacheConnect_found [OF devs d1] go_def lifecycle_def)
    next
      case (Some x)
      with Inr p d q r show ?thesis
        by (simp add: SearchAndConnect_def tryCacheConnect_found [OF devs d1] go_def lifecycle_def)
    qed
  qed
qed

lemma runGoroutine_lifecycle:
  assumes "lifecycle cl" and "pending cl = g # gs"
  shows "lifecycle (client_of (runGoroutine env fuel g (cl\<lparr>pending := gs\<rparr>))) \<and>
         \<not> panicked (runGoroutine env fuel g (cl\<lparr>pending := gs\<rparr>))"
proof -
  from assms consider
    (discovery) matchFunc config where "g = GoDiscovery matchFunc config" "gs = []"
      "dev cl = None" "filter retry_event (trace cl) = []"
  | (retry) d coolDown where "g = GoConnectForever coolDown" "gs = []"
      "dev cl = Some d" "filter retry_event (trace cl) = [Go TryConnectForever]"
    by (auto simp: lifecycle_def)
  then show ?thesis
  proof cases
    case discovery
    then show ?thesis
      using discoveryGoroutine_lifecycle [of "cl\<lparr>pending := []\<rparr>" env matchFunc config]
      by simp
  next
    case retry
    then show ?thesis
      using tryConnectForever_lifecycle [of "cl\<lparr>pending := []\<rparr>" d env coolDown fuel]
      by simp
  qed
qed

lemma runPending_lifecycle:
  "lifecycle cl \<Longrightarrow>
   lifecycle (client_of (runPending env fuel k cl)) \<and> \<not> panicked (runPending env fuel k cl)"
proof (induction k arbitrary: cl)
  case 0
  then show ?case by simp
next
  case (Suc k)
  show ?case
  proof (cases "pending cl")
    case Nil
    with Suc.prems show ?thesis by simp
  next
    case (Cons g gs)
    let ?out = "runGoroutine env fuel g (cl\<lparr>pending := gs\<rparr>)"
    have l: "lifecycle (client_of ?out)" and n: "\<not> panicked ?out"
      using runGoroutine_lifecycle [OF Suc.prems Cons, of env fuel] by simp_all
    show ?thesis
    proof (cases ?out)
      case (Returned cl1)
      with l Cons Suc.IH [of cl1] show ?thesis by simp
    next
      case (Unfinished cl1)
      with l Cons show ?thesis by simp
    next
      case (Panicked cl1)
      with n show ?thesis by simp
    qed
  qed
qed

lemma NewClient_idle:
  "NewClient env = Inr cl \<Longrightarrow>
   dev cl = None \<and> pending cl = [] \<and> filter retry_event (trace cl) = []"
  by (auto simp: NewClient_def Let_def act_defs split: sum.splits option.splits)

lemma count_retry_event:
  "retry_event e \<Longrightarrow> count_list tr e = count_list (filter retry_event tr) e"
  by (induction tr) auto

lemma member_retry_event:
  "retry_event e \<Longrightarrow> e \<in> set tr \<longleftrightarrow> 0 < count_list (filter retry_event tr) e"
  by (induction tr) auto

lemma lifecycle_signal:
  assumes "lifecycle cl"
  shows "count_list (trace cl) (Go TryConnectForever) \<le> 1 \<and>
         count_list (trace cl) SendDone \<le> 1 \<and>
         (count_list (trace cl) SendDone = 1 \<longleftrightarrow>
            (\<exists>d. dev cl = Some d \<and> ConnectCall d None \<in> set (trace cl)))"
proof -
  have g: "count_list (trace cl) (Go TryConnectForever)
             = count_list (filter retry_event (trace cl)) (Go TryConnectForever)"
    by (rule count_retry_event) simp
  have s: "count_list (trace cl) SendDone = count_list (filter retry_event (trace cl)) SendDone"
    by (rule count_retry_event) simp
  have c: "ConnectCall d None \<in> set (trace cl)
             \<longleftrightarrow> 0 < count_list (filter retry_event (trace cl)) (ConnectCall d None)" for d
    by (rule member_retry_event) simp
  from assms show ?thesis
    unfolding g s c lifecycle_def by auto
qed

lemmas run_defs = SearchAndConnect_def SearchAndConnect_matchFunc_def tryCacheConnect_def
  tryDiscoveryConnect_def discoveryGoroutine_def tryConnectForever_def connectCalls_def Let_def

lemma world_NewClient: "NewClient world = Inr powered"
  by (simp add: NewClient_def world_def powered_def fresh_def act_defs)

lemma eager_NewClient: "NewClient eager = Inr powered"
  by (simp add: NewClient_def eager_def world_def powered_def fresh_def act_defs)

lemma world_run:
  "runPending world (Suc (Suc 0)) (Suc (Suc 0)) (snd (SearchAndConnect world by_name powered))
     = Unfinished retrying"
  by (simp add: run_defs world_defs powered_def retrying_def act_defs)

lemma eager_run:
  "runPending eager (Suc (Suc 0)) (Suc (Suc 0)) (snd (SearchAndConnect eager by_name powered))
     = Returned connected"
  by (simp add: run_defs eager_def world_defs powered_def connected_def act_defs)

lemma no_discovery_call:
  "fst (SearchAndConnect no_discovery by_name fresh) = None"
  by (simp add: run_defs no_discovery_def world_defs act_defs)

lemma no_discovery_run:
  "runPending no_discovery (Suc (Suc 0)) (Suc 0) (snd (SearchAndConnect no_discovery by_name fresh))
     = Returned start_failed"
  by (simp add: run_defs no_discovery_def world_defs start_failed_def act_defs)

text \<open>
  C3. On a client as \<open>NewClient\<close> returns it, after one call of \<open>SearchAndConnect\<close> and
  however far its goroutines have run (any bound on the goroutines run, any bound on the
  rounds of the retry loop): the retry loop has been started at most once, the signal on
  \<open>done\<close> has been sent at most once, and it has been sent exactly when a call of
  \<open>Connect\<close> on the selected candidate has returned nil.
\<close>

theorem one_retry_loop_one_signal:
  assumes "NewClient env = Inr cl"
  shows "count_list (trace (client_of (runPending env fuel k (snd (SearchAndConnect env config cl)))))
           (Go TryConnectForever) \<le> 1 \<and>
         count_list (trace (client_of (runPending env fuel k (snd (SearchAndConnect env config cl)))))
           SendDone \<le> 1 \<and>
         (count_list (trace (client_of (runPending env fuel k (snd (SearchAndConnect env config cl)))))
            SendDone = 1 \<longleftrightarrow>
          (\<exists>d. dev (client_of (runPending env fuel k (snd (SearchAndConnect env config cl)))) = Some d \<and>
               ConnectCall d None
                 \<in> set (trace (client_of (runPending env fuel k (snd (SearchAndConnect env config cl)))))))"
proof -
  from NewClient_idle [OF assms]
  have "lifecycle (snd (SearchAndConnect env config cl))"
    by (simp add: SearchAndConnect_lifecycle)
  then have "lifecycle (client_of (runPending env fuel k (snd (SearchAndConnect env config cl))))"
    by (simp add: runPending_lifecycle)
  then show ?thesis
    by (rule lifecycle_signal)
qed

text \<open>
  In \<open>world\<close> the one call of \<open>Connect\<close> fails: one retry loop, no signal. In \<open>eager\<close>
  it succeeds: one retry loop, one signal.
\<close>

theorem one_retry_loop_one_signal_witness:
  "NewClient world = Inr powered \<and>
   runPending world (Suc (Suc 0)) (Suc (Suc 0)) (snd (SearchAndConnect world by_name powered))
     = Unfinished retrying \<and>
   count_list (trace retrying) (Go TryConnectForever) = 1 \<and>
   count_list (trace retrying) SendDone = 0 \<and>
   ConnectCall soundbar None \<notin> set (trace retrying) \<and>
   NewClient eager = Inr powered \<and>
   runPending eager (Suc (Suc 0)) (Suc (Suc 0)) (snd (SearchAndConnect eager by_name powered))
     = Returned connected \<and>
   count_list (trace connected) (Go TryConnectForever) = 1 \<and>
   count_list (trace connected) SendDone = 1 \<and>
   dev connected = Some soundbar \<and>
   ConnectCall soundbar None \<in> set (trace connected)"
proof -
  have w: "count_list (trace retrying) (Go TryConnectForever) \<le> 1 \<and>
           count_list (trace retrying) SendDone \<le> 1 \<and>
           (count_list (trace retrying) SendDone = 1 \<longleftrightarrow>
              (\<exists>d. dev retrying = Some d \<and> ConnectCall d None \<in> set (trace retrying)))"
    using one_retry_loop_one_signal [OF world_NewClient, of "Suc (Suc 0)" "Suc (Suc 0)" by_name]
    unfolding world_run client_of.simps .
  have e: "count_list (trace connected) (Go TryConnectForever) \<le> 1 \<and>
           count_list (trace connected) SendDone \<le> 1 \<and>
           (count_list (trace connected) SendDone = 1 \<longleftrightarrow>
              (\<exists>d. dev connected = Some d \<and> ConnectCall d None \<in> set (trace connected)))"
    using one_retry_loop_one_signal [OF eager_NewClient, of "Suc (Suc 0)" "Suc (Suc 0)" by_name]
    unfolding eager_run client_of.simps .
  have c: "count_list (trace connected) SendDone = 1" "dev connected = Some soundbar"
    "count_list (trace connected) (Go TryConnectForever) = 1"
    by (simp_all add: connected_def)
  have r: "count_list (trace retrying) SendDone = 0" "dev retrying = Some soundbar"
    "count_list (trace retrying) (Go TryConnectForever) = 1"
    by (simp_all add: retrying_def)
  from w r have "ConnectCall soundbar None \<notin> set (trace retrying)" by simp
  moreover from e c have "ConnectCall soundbar None \<in> set (trace connected)" by simp
  ultimately show ?thesis
    using world_NewClient eager_NewClient world_run eager_run c r by simp
qed

text \<open>
  C2, as the code has it. When the configuration is valid, no cached device satisfies
  the predicate and the discovery cannot start, \<open>SearchAndConnect\<close> returns nil: it has
  started the fallback as a goroutine and does not wait for it. The goroutine returns,
  its last action being the error-level log line that carries the wrapped start error;
  no retry loop is started, no call of \<open>Connect\<close> is made, nothing is sent on \<open>done\<close>, the
  cancel function is not called, and the candidate slot is empty.
\<close>

theorem SearchAndConnect_discovery_start_failure:
  assumes valid: "\<not> isl (SearchAndConnect_matchFunc env config)"
    and cache: "GetDevices env = Inr devices"
    and miss: "\<forall>d\<in>set devices. matchFunc_on env config (Address d) (Name d) = Some False"
    and slot: "dev cl = None" and idle: "pending cl = []"
    and start: "Discover env = Inl err"
  shows "fst (SearchAndConnect env config cl) = None \<and>
         map name_of (pending (snd (SearchAndConnect env config cl))) = [TryDiscoveryConnect] \<and>
         returned (runPending env fuel (Suc k) (snd (SearchAndConnect env config cl))) \<and>
         last (trace (client_of (runPending env fuel (Suc k) (snd (SearchAndConnect env config cl)))))
           = Log Error ''error attempting connection through discovery: %v\<newline>''
               [E (fmt_Errorf_w ''error starting discovery'' (Lib err))] \<and>
         pending (client_of (runPending env fuel (Suc k) (snd (SearchAndConnect env config cl)))) = [] \<and>
         dev (client_of (runPending env fuel (Suc k) (snd (SearchAndConnect env config cl)))) = None \<and>
         filter retry_event
           (trace (client_of (runPending env fuel (Suc k) (snd (SearchAndConnect env config cl)))))
           = filter retry_event (trace cl) \<and>
         count_list
           (trace (client_of (runPending env fuel (Suc k) (snd (SearchAndConnect env config cl)))))
           CancelDiscover
           = count_list (trace cl) CancelDiscover"
proof -
  from valid obtain matchFunc config1
    where sw: "SearchAndConnect_matchFunc env config = Inr (matchFunc, config1)"
    by (cases "SearchAndConnect_matchFunc env config") auto
  from miss sw have "\<forall>d\<in>set devices. \<not> matchFunc (Address d) (Name d)"
    by (simp add: matchFunc_on_def)
  then have none: "find (\<lambda>d. matchFunc (Address d) (Name d)) devices = None"
    by (simp add: find_None_iff)
  let ?cl1 = "Infof ''Starting tryCacheConnect...\<newline>'' [] cl"
  let ?cl2 = "cacheLoop matchFunc devices (emit GetDevicesCall ?cl1)"
  let ?cl3 = "go (GoDiscovery matchFunc config1) ?cl2"
  have d1: "dev ?cl1 = None" using slot by (simp add: act_defs)
  have call: "SearchAndConnect env config cl = (None, ?cl3)"
    using sw none by (simp add: SearchAndConnect_def tryCacheConnect_found [OF cache d1])
  have d2: "dev ?cl2 = None"
    using slot none by (cases devices) (simp_all add: cacheLoop_dev act_defs del: cacheLoop.simps)
  have p2: "pending ?cl2 = []"
    using idle by (simp add: cacheLoop_pending act_defs)
  have r2: "filter retry_event (trace ?cl2) = filter retry_event (trace cl)"
    by (simp add: cacheLoop_retry_events act_defs)
  have c2: "count_list (trace ?cl2) CancelDiscover = count_list (trace cl) CancelDiscover"
    by (simp add: cacheLoop_cancel act_defs)
  let ?cl4 = "Errorf ''error attempting connection through discovery: %v\<newline>''
                [E (fmt_Errorf_w ''error starting discovery'' (Lib err))]
                ((emit DiscoverCall
                    (Infof ''Could not find device in cache, starting tryDiscoveryConnect...\<newline>'' []
                       (?cl3\<lparr>pending := []\<rparr>)))\<lparr>discoverChan := None, cancelDiscoverFn := None\<rparr>)"
  have g: "runGoroutine env fuel (GoDiscovery matchFunc config1) (?cl3\<lparr>pending := []\<rparr>)
             = Returned ?cl4"
    using start by (simp add: discoveryGoroutine_def tryDiscoveryConnect_def Let_def)
  have p3: "pending ?cl3 = [GoDiscovery matchFunc config1]"
    using p2 by (simp add: go_def)
  have p4: "pending ?cl4 = []"
    by (simp add: act_defs)
  have run: "runPending env fuel (Suc k) ?cl3 = Returned ?cl4"
    using p3 g runPending_idle [OF p4] by simp
  have "last (trace ?cl4) = Log Error ''error attempting connection through discovery: %v\<newline>''
               [E (fmt_Errorf_w ''error starting discovery'' (Lib err))]"
    by (simp add: act_defs)
  moreover have "dev ?cl4 = None"
    using d2 by (simp add: act_defs)
  moreover have "filter retry_event (trace ?cl4) = filter retry_event (trace cl)"
    using r2 by (simp add: act_defs)
  moreover have "count_list (trace ?cl4) CancelDiscover = count_list (trace cl) CancelDiscover"
    using c2 by (simp add: act_defs)
  ultimately show ?thesis
    unfolding call snd_conv fst_conv run client_of.simps
    using p3 p4 by simp
qed

text \<open>
  C2 as stated does not hold: with one cached device that does not match and a discovery
  that cannot start, \<open>SearchAndConnect\<close> returns nil, not the start error.
\<close>

theorem SearchAndConnect_discovery_start_failure_counterexample:
  "GetDevices no_discovery = Inr [speaker] \<and>
   matchFunc_on no_discovery by_name (Address speaker) (Name speaker) = Some False \<and>
   Discover no_discovery = Inl (LibError ''org.bluez.Error.NotReady'') \<and>
   fst (SearchAndConnect no_discovery by_name fresh) = None"
  by (simp add: no_discovery_call)
     (simp add: no_discovery_def world_defs matchFunc_on_def SearchAndConnect_matchFunc_def)

theorem SearchAndConnect_discovery_start_failure_witness:
  "\<not> isl (SearchAndConnect_matchFunc no_discovery by_name) \<and>
   GetDevices no_discovery = Inr [speaker] \<and>
   matchFunc_on no_discovery by_name (Address speaker) (Name speaker) = Some False \<and>
   dev fresh = None \<and> pending fresh = [] \<and>
   Discover no_discovery = Inl (LibError ''org.bluez.Error.NotReady'') \<and>
   fst (SearchAndConnect no_discovery by_name fresh) = None \<and>
   runPending no_discovery (Suc (Suc 0)) (Suc 0) (snd (SearchAndConnect no_discovery by_name fresh))
     = Returned start_failed \<and>
   last (trace start_failed)
     = Log Error ''error attempting connection through discovery: %v\<newline>''
         [E (fmt_Errorf_w ''error starting discovery'' (Lib (LibError ''org.bluez.Error.NotReady'')))] \<and>
   pending start_failed = [] \<and> dev start_failed = None \<and>
   filter retry_event (trace start_failed) = [] \<and>
   count_list (trace start_failed) CancelDiscover = 0"
proof -
  have v: "\<not> isl (SearchAndConnect_matchFunc no_discovery by_name)"
    by (simp add: no_discovery_def world_defs SearchAndConnect_matchFunc_def)
  have g: "GetDevices no_discovery = Inr [speaker]"
    by (simp add: no_discovery_def)
  have m: "matchFunc_on no_discovery by_name (Address speaker) (Name speaker) = Some False"
    by (simp add: no_discovery_def world_defs matchFunc_on_def SearchAndConnect_matchFunc_def)
  then have m': "\<forall>d\<in>set [speaker]. matchFunc_on no_discovery by_name (Address d) (Name d) = Some False"
    by simp
  have f: "dev fresh = None" "pending fresh = []"
    by (simp_all add: fresh_def)
  have s: "Discover no_discovery = Inl (LibError ''org.bluez.Error.NotReady'')"
    by (simp add: no_discovery_def)
  have t: "filter retry_event (trace fresh) = []" "count_list (trace fresh) CancelDiscover = 0"
    by (simp_all add: fresh_def)
  show ?thesis
    using SearchAndConnect_discovery_start_failure [OF v g m' f s, of "Suc (Suc 0)" 0]
      v g m f s t
    unfolding no_discovery_run client_of.simps
    by simp
qed

end
